theory Spec2Isabelle
  imports Main
begin

section \<open>HTTP methods\<close>

text \<open>
  The method literals the sources use: the five of the \<^verbatim>\<open>Method\<close> union listed in
  \<^verbatim>\<open>client.ts\<close> (\<^verbatim>\<open>["get", "post", "put", "delete", "patch"] as Method[]\<close>) and the auxiliary
  \<^verbatim>\<open>"options"\<close> that the endpoint callback of \<^verbatim>\<open>client.ts\<close> compares its method against.
\<close>

datatype Method = Get | Post | Put | Delete | Patch | Options

fun method_literal :: "Method \<Rightarrow> string" where
  "method_literal Get = ''get''"
| "method_literal Post = ''post''"
| "method_literal Put = ''put''"
| "method_literal Delete = ''delete''"
| "method_literal Patch = ''patch''"
| "method_literal Options = ''options''"

text \<open>
  \<^verbatim>\<open>String.prototype.toUpperCase\<close>, on the ASCII range: the letters a..z (codes 97..122) move
  down by 32, every other character stays. The method literals are ASCII.
\<close>

definition toUpperCase :: "string \<Rightarrow> string" where
  "toUpperCase s =
     map (\<lambda>c. let n = (of_char c :: nat)
               in if 97 \<le> n \<and> n \<le> 122 then char_of (n - 32) else c) s"

section \<open>errors.ts\<close>

text \<open>
  A JavaScript error object, reduced to the two fields the classes of \<^verbatim>\<open>errors.ts\<close> set:
  \<^verbatim>\<open>name\<close> (overridden per class) and \<^verbatim>\<open>message\<close> (the argument of \<^verbatim>\<open>super\<close>).
\<close>

record Error =
  name :: string
  message :: string

text \<open>\<^verbatim>\<open>class RoutingError extends Error { name = "RoutingError" }\<close>\<close>

definition RoutingError :: "string \<Rightarrow> Error" where
  "RoutingError msg = \<lparr>name = ''RoutingError'', message = msg\<rparr>"

text \<open>
  \<^verbatim>\<open>class DocumentationError\<close>: the constructor takes \<^verbatim>\<open>{message, method, path, isResponse}\<close>
  and passes the template string \<^verbatim>\<open>finalMessage\<close> to \<^verbatim>\<open>super\<close>.
\<close>

definition DocumentationError :: "string \<Rightarrow> Method \<Rightarrow> string \<Rightarrow> bool \<Rightarrow> Error" where
  "DocumentationError msg method path isResponse =
     (let finalMessage =
            msg @ [CHR 0x0A] @ ''Caused by '' @
            (if isResponse then ''response'' else ''input'') @
            '' schema of an Endpoint assigned to '' @
            toUpperCase (method_literal method) @ '' method of '' @ path @ '' path.''
      in \<lparr>name = ''DocumentationError'', message = finalMessage\<rparr>)"

text \<open>\<^verbatim>\<open>class IOSchemaError extends Error { name = "IOSchemaError" }\<close>\<close>

definition IOSchemaError :: "string \<Rightarrow> Error" where
  "IOSchemaError msg = \<lparr>name = ''IOSchemaError'', message = msg\<rparr>"

section \<open>What client.ts imports\<close>

subsection \<open>Schemas and endpoints\<close>

text \<open>
  The validation schemas are values of the zod library, finite trees. \<^verbatim>\<open>client.ts\<close> builds
  one itself, with \<^verbatim>\<open>a.or(b)\<close>, which in zod is the union of the two options in that order.
\<close>

datatype ZodType =
    ZodString
  | ZodNumber
  | ZodLiteral string
  | ZodObject "(string \<times> ZodType) list"
  | ZodArray ZodType
  | ZodUnion "ZodType list"

definition zod_or :: "ZodType \<Rightarrow> ZodType \<Rightarrow> ZodType" where
  "zod_or this option = ZodUnion [this, option]"

text \<open>
  An endpoint, as far as \<^verbatim>\<open>client.ts\<close> reads it: the values of the four getters it calls.
\<close>

record Endpoint =
  getInputSchema :: ZodType
  getPositiveResponseSchema :: ZodType
  getNegativeResponseSchema :: ZodType
  getPositiveMimeTypes :: "string list"

text \<open>
  Modelled from the spec: the constant \<^verbatim>\<open>mimeJson\<close> of \<^verbatim>\<open>./mime\<close> is not among the sources.
  It is the MIME type of a JSON-encoded body, \<^verbatim>\<open>application/json\<close>, the content type of the
  JSON responses of the example document.
\<close>

definition mimeJson :: string where
  "mimeJson = ''application/json''"

subsection \<open>Syntax tree nodes\<close>

text \<open>
  The nodes that \<^verbatim>\<open>client.ts\<close> creates with the TypeScript factory \<^verbatim>\<open>f\<close>, one constructor per
  factory function, with the arguments the source passes. The results of the helpers of
  \<^verbatim>\<open>./client-helpers\<close>, which is not among the sources, are kept as nodes of their own that
  record the arguments (\<open>MakeTemplate\<close>, \<open>MakeRecord\<close>, \<open>ParametricIndexNode\<close>, \<open>MakeParam\<close>,
  \<open>MakeEmptyConstructor\<close>).
\<close>

datatype Modifier = ExportKeyword | PublicKeyword | ProtectedKeyword | ReadonlyKeyword

datatype TypeNode =
    KeywordTypeNode string
  | LiteralTypeNode string
  | TypeReferenceNode string "TypeNode list"
  | UnionTypeNode "TypeNode list"
  | ArrayTypeNode TypeNode
  | TypeLiteralNode "(string \<times> TypeNode) list"
  | IndexedAccessTypeNode TypeNode TypeNode
  | FunctionTypeNode "(string \<times> TypeNode) list" "(Modifier list \<times> string \<times> TypeNode) list" TypeNode
  | MakeTemplate "string list"
  | MakeRecord string string
  | ParametricIndexNode

type_synonym MakeParam = "Modifier list \<times> string \<times> TypeNode"

datatype Expression =
    TrueLiteral
  | ThisExpression
  | PropertyAccessExpression Expression string
  | ObjectLiteralExpression "(string \<times> Expression) list"

datatype ClassElement =
    MakeEmptyConstructor "MakeParam list"
  | PropertyDeclaration "Modifier list" string Expression

record EnumDeclaration =
  enum_name :: string
  enum_members :: "(string \<times> string) list"

datatype Node =
    NativeEnum EnumDeclaration
  | TypeAliasDeclaration "Modifier list" string TypeNode
  | InterfaceDeclaration "Modifier list" string TypeNode "(string \<times> TypeNode) list"
  | ConstStatement "Modifier list" string Expression
  | ClassDeclaration "Modifier list" string "ClassElement list" string

text \<open>
  \<open>InterfaceDeclaration\<close> carries the one type of its \<^verbatim>\<open>extends\<close> clause and its property
  signatures (name and type); \<open>ConstStatement\<close> is a variable statement with one declaration
  and the flag \<^verbatim>\<open>ts.NodeFlags.Const\<close>; the last argument of \<open>ClassDeclaration\<close> is the text of
  the synthetic leading comment.
\<close>

text \<open>
  Modelled from the spec: the helpers \<^verbatim>\<open>exportModifier\<close>, \<^verbatim>\<open>protectedReadonlyModifier\<close> and
  \<^verbatim>\<open>makeQuotedProp\<close> of \<^verbatim>\<open>./client-helpers\<close> are not among the sources. The first two are
  the modifier lists their names say; \<^verbatim>\<open>makeQuotedProp(name, ref)\<close> is a property signature
  whose name is the key in double quotes and whose type refers to the type named \<^verbatim>\<open>ref\<close> (the
  keyed mapping interfaces of the client artifact: method+path key to type name), quoted
  the way \<^verbatim>\<open>client.ts\<close> itself quotes the keys of \<^verbatim>\<open>jsonEndpoints\<close>.
\<close>

definition exportModifier :: "Modifier list" where
  "exportModifier = [ExportKeyword]"

definition protectedReadonlyModifier :: "Modifier list" where
  "protectedReadonlyModifier = [ProtectedKeyword, ReadonlyKeyword]"

definition quoted :: "string \<Rightarrow> string" where
  "quoted s = [CHR 0x22] @ s @ [CHR 0x22]"

definition makeQuotedProp :: "string \<Rightarrow> string \<Rightarrow> string \<times> TypeNode" where
  "makeQuotedProp name' ref = (quoted name', TypeReferenceNode ref [])"

subsection \<open>zod-to-ts\<close>

text \<open>
  \<^verbatim>\<open>zodToTs(schema, identifier, {resolveNativeEnums})\<close> of the zod-to-ts library returns a type
  node and a store of the enum declarations it met. The library is a parameter of the
  model: a function of this type. \<^verbatim>\<open>createTypeAlias(node, identifier)\<close> of the same library
  is the plain (not exported) alias declaration.
\<close>

record ZodToTsReturn =
  node :: TypeNode
  store_nativeEnums :: "EnumDeclaration list"

type_synonym ZodToTs = "ZodType \<Rightarrow> string \<Rightarrow> bool \<Rightarrow> ZodToTsReturn"

definition createTypeAlias :: "TypeNode \<Rightarrow> string \<Rightarrow> Node" where
  "createTypeAlias nd identifier = TypeAliasDeclaration [] identifier nd"

text \<open>
  \<^verbatim>\<open>cleanId(path, method, suffix)\<close> of \<^verbatim>\<open>./client-helpers\<close> is not among the sources; it is a
  parameter of the model too.
\<close>

type_synonym CleanId = "string \<Rightarrow> Method \<Rightarrow> string \<Rightarrow> string"

section \<open>Routing traversal\<close>

text \<open>
  A routing declaration is taken flattened, as the ordered sequence of the calls
  \<^verbatim>\<open>endpointCb(endpoint, path, method)\<close> it gives rise to: one route entry per terminal
  endpoint, in declaration order. The key of an entry in the registry of the client is
  \<^verbatim>\<open>`${method} ${path}`\<close>.
\<close>

type_synonym RouteEntry = "Endpoint \<times> string \<times> Method"

type_synonym Routing = "RouteEntry list"

definition methodPath :: "Method \<Rightarrow> string \<Rightarrow> string" where
  "methodPath method path = method_literal method @ '' '' @ path"

definition route_key :: "'e \<times> string \<times> Method \<Rightarrow> Method \<times> string" where
  "route_key entry = (case entry of (endpoint, path, method) \<Rightarrow> (method, path))"

text \<open>
  Modelled from the spec: the error of the traversal. \<^verbatim>\<open>errors.ts\<close> declares \<^verbatim>\<open>RoutingError\<close>
  and no class of the name the specification gives (sections 4.5, 7 and 8), and nothing
  among the sources throws either; the error here has the name of the specification,
  \<^verbatim>\<open>RoutingConflictError\<close>, and reports both conflicting declarations, in the order they
  were declared.
\<close>

record 'e RoutingConflict = Error +
  declarations :: "('e \<times> string \<times> Method) \<times> ('e \<times> string \<times> Method)"

definition RoutingConflictError ::
  "'e \<times> string \<times> Method \<Rightarrow> 'e \<times> string \<times> Method \<Rightarrow> 'e RoutingConflict" where
  "RoutingConflictError earlier later =
     \<lparr>name = ''RoutingConflictError'',
      message = (case route_key earlier of (method, path) \<Rightarrow>
                   ''Duplicate route: '' @ methodPath method path),
      declarations = (earlier, later)\<rparr>"

text \<open>
  Modelled from the spec: \<^verbatim>\<open>routingCycle\<close> of \<^verbatim>\<open>./routing\<close> is not among the sources. The
  (method, path) pair is unique across a traversed routing, and the traversal must fail if
  it is not: the first entry that a later entry repeats, and the first entry that repeats
  it, are the conflict. The traversal then fails without having invoked the visitor: the
  state the visitor works on (what the consumer has accumulated, which a JavaScript
  exception leaves as it is) is returned as it was given. Otherwise the visitor is invoked
  once per entry, in declaration order.
\<close>

fun find_conflict ::
  "('e \<times> string \<times> Method) list \<Rightarrow>
     (('e \<times> string \<times> Method) \<times> ('e \<times> string \<times> Method)) option" where
  "find_conflict [] = None"
| "find_conflict (entry # rest) =
     (case find (\<lambda>later. route_key later = route_key entry) rest of
        Some later \<Rightarrow> Some (entry, later)
      | None \<Rightarrow> find_conflict rest)"

definition routingCycle ::
  "('e \<times> string \<times> Method) list \<Rightarrow> ('e \<Rightarrow> string \<Rightarrow> Method \<Rightarrow> 's \<Rightarrow> 's) \<Rightarrow> 's \<Rightarrow>
     ('e RoutingConflict + unit) \<times> 's" where
  "routingCycle routing endpointCb s =
     (case find_conflict routing of
        Some (earlier, later) \<Rightarrow> (Inl (RoutingConflictError earlier later), s)
      | None \<Rightarrow>
          (Inr (), foldl (\<lambda>s' (endpoint, path, method). endpointCb endpoint path method s') s routing))"

section \<open>client.ts\<close>

subsection \<open>The fields of a Client\<close>

text \<open>
  \<^verbatim>\<open>registry\<close> is a JavaScript object used as a dictionary. Its keys are
  \<^verbatim>\<open>`${method} ${path}`\<close>, never an array index, so \<^verbatim>\<open>Object.keys\<close> lists them in the order of
  their first assignment; assigning to a key that is present replaces the value in place.
\<close>

record RegistryEntry =
  reg_in :: string
  reg_out :: string
  isJson :: bool

type_synonym Registry = "(string \<times> RegistryEntry) list"

fun registry_set :: "Registry \<Rightarrow> string \<Rightarrow> RegistryEntry \<Rightarrow> Registry" where
  "registry_set [] k v = [(k, v)]"
| "registry_set ((k', v') # r) k v =
     (if k' = k then (k, v) # r else (k', v') # registry_set r k v)"

definition Object_keys :: "Registry \<Rightarrow> string list" where
  "Object_keys r = map fst r"

text \<open>
  \<^verbatim>\<open>this.registry[methodPath]\<close> is only read at keys of \<^verbatim>\<open>Object.keys(this.registry)\<close>, where
  it is defined.
\<close>

definition registry_get :: "Registry \<Rightarrow> string \<Rightarrow> RegistryEntry" where
  "registry_get r k = the (map_of r k)"

record Client =
  agg :: "Node list"
  registry :: Registry
  paths :: "string list"

subsection \<open>The endpoint callback\<close>

definition endpointCb ::
  "ZodToTs \<Rightarrow> CleanId \<Rightarrow> Endpoint \<Rightarrow> string \<Rightarrow> Method \<Rightarrow> Client \<Rightarrow> Client" where
  "endpointCb zodToTs cleanId endpoint path method this =
     (let inputId = cleanId path method ''input'';
          responseId = cleanId path method ''response'';
          input = zodToTs (getInputSchema endpoint) inputId True;
          response = zodToTs
            (zod_or (getPositiveResponseSchema endpoint) (getNegativeResponseSchema endpoint))
            responseId True;
          inputAlias = createTypeAlias (node input) inputId;
          responseAlias = createTypeAlias (node response) responseId;
          this1 = this\<lparr>agg := agg this @
                    map NativeEnum (store_nativeEnums input) @
                    map NativeEnum (store_nativeEnums response)\<rparr>;
          this2 = this1\<lparr>agg := agg this1 @ [inputAlias]\<rparr>;
          this3 = this2\<lparr>agg := agg this2 @ [responseAlias]\<rparr>
      in if method \<noteq> Options
         then this3\<lparr>paths := paths this3 @ [path],
                    registry := registry_set (registry this3) (methodPath method path)
                      \<lparr>reg_in = inputId, reg_out = responseId,
                       isJson = mimeJson \<in> set (getPositiveMimeTypes endpoint)\<rparr>\<rparr>
         else this3)"

subsection \<open>The aggregate declarations\<close>

definition pathNode :: "Client \<Rightarrow> Node" where
  "pathNode this =
     TypeAliasDeclaration exportModifier ''Path''
       (UnionTypeNode (map (\<lambda>path. LiteralTypeNode path) (paths this)))"

definition methodNode :: Node where
  "methodNode =
     TypeAliasDeclaration exportModifier ''Method''
       (UnionTypeNode
          (map (\<lambda>method. LiteralTypeNode (method_literal method)) [Get, Post, Put, Delete, Patch]))"

definition methodPathNode :: Node where
  "methodPathNode =
     TypeAliasDeclaration exportModifier ''MethodPath'' (MakeTemplate [''Method'', ''Path''])"

definition extenderClause :: TypeNode where
  "extenderClause = MakeRecord ''MethodPath'' ''any''"

definition inputNode :: "Client \<Rightarrow> Node" where
  "inputNode this =
     InterfaceDeclaration exportModifier ''Input'' extenderClause
       (map (\<lambda>k. makeQuotedProp k (reg_in (registry_get (registry this) k)))
            (Object_keys (registry this)))"

definition responseNode :: "Client \<Rightarrow> Node" where
  "responseNode this =
     InterfaceDeclaration exportModifier ''Response'' extenderClause
       (map (\<lambda>k. makeQuotedProp k (reg_out (registry_get (registry this) k)))
            (Object_keys (registry this)))"

definition jsonEndpointsNode :: "Client \<Rightarrow> Node" where
  "jsonEndpointsNode this =
     ConstStatement exportModifier ''jsonEndpoints''
       (ObjectLiteralExpression
          (map (\<lambda>k. (quoted k, TrueLiteral))
               (filter (\<lambda>k. isJson (registry_get (registry this) k))
                       (Object_keys (registry this)))))"

definition providerNode :: Node where
  "providerNode =
     TypeAliasDeclaration exportModifier ''Provider''
       (FunctionTypeNode
          [(''M'', TypeReferenceNode ''Method'' []), (''P'', TypeReferenceNode ''Path'' [])]
          [([], ''method'', TypeReferenceNode ''M'' []),
           ([], ''path'', TypeReferenceNode ''P'' []),
           ([], ''params'',
            IndexedAccessTypeNode (TypeReferenceNode ''Input'' []) ParametricIndexNode)]
          (TypeReferenceNode ''Promise''
             [IndexedAccessTypeNode (TypeReferenceNode ''Response'' []) ParametricIndexNode]))"

definition clientComment :: string where
  \<open>clientComment =
     [CHR 0x0A] @
     ''export const createDefaultProvider ='' @ [CHR 0x0A] @
     ''  (host: string): '' @ ''Provider'' @ '' =>'' @ [CHR 0x0A] @
     ''  async (method, path, params) => {'' @ [CHR 0x0A] @
     ''    const urlParams ='' @ [CHR 0x0A] @
     ''      method === "get" ? new URLSearchParams(params).toString() : "";'' @ [CHR 0x0A] @
     ''    const response = await fetch(`${host}${path}?${urlParams}`, {'' @ [CHR 0x0A] @
     ''      method: `${method}`,'' @ [CHR 0x0A] @
     ''      body: method === "get" ? undefined : JSON.stringify(params),'' @ [CHR 0x0A] @
     ''    });'' @ [CHR 0x0A] @
     ''    if (`${method} ${path}` in jsonEndpoints) {'' @ [CHR 0x0A] @
     ''      return response.json();'' @ [CHR 0x0A] @
     ''    }'' @ [CHR 0x0A] @
     ''    return response.text();'' @ [CHR 0x0A] @
     ''  };'' @ [CHR 0x0A] @
     [CHR 0x0A] @
     ''const client = new '' @ ''ExpressZodAPIClient'' @ ''('' @ [CHR 0x0A] @
     ''  createDefaultProvider("https://example.com")'' @ [CHR 0x0A] @
     '');'' @ [CHR 0x0A]\<close>

definition clientNode :: Node where
  "clientNode =
     ClassDeclaration exportModifier ''ExpressZodAPIClient''
       [MakeEmptyConstructor
          [(protectedReadonlyModifier, ''provider'', TypeReferenceNode ''Provider'' [])],
        PropertyDeclaration [PublicKeyword] ''provide''
          (PropertyAccessExpression ThisExpression ''provider'')]
       clientComment"

subsection \<open>The constructor and print\<close>

text \<open>
  The instance fields start empty (\<^verbatim>\<open>agg = []\<close>, \<^verbatim>\<open>registry = {}\<close>, \<^verbatim>\<open>paths = []\<close>); the
  constructor runs the traversal with the endpoint callback and then pushes the eight
  aggregate declarations. An error of the traversal leaves the constructor, and no
  instance results.
\<close>

definition Client_init :: Client where
  "Client_init = \<lparr>agg = [], registry = [], paths = []\<rparr>"

definition Client_constructor ::
  "ZodToTs \<Rightarrow> CleanId \<Rightarrow> Routing \<Rightarrow> Endpoint RoutingConflict + Client" where
  "Client_constructor zodToTs cleanId routing =
     (case routingCycle routing (endpointCb zodToTs cleanId) Client_init of
        (Inl err, this) \<Rightarrow> Inl err
      | (Inr finished, this) \<Rightarrow>
          Inr (this\<lparr>agg := agg this @
                 [pathNode this, methodNode, methodPathNode, inputNode this, responseNode this,
                  jsonEndpointsNode this, providerNode, clientNode]\<rparr>))"

text \<open>\<^verbatim>\<open>Array.prototype.join\<close> on strings.\<close>

fun join :: "string \<Rightarrow> string list \<Rightarrow> string" where
  "join sep [] = []"
| "join sep [x] = x"
| "join sep (x # y # ys) = x @ sep @ join sep (y # ys)"

subsection \<open>Instances, and the state of the libraries\<close>

text \<open>
  Above, \<^verbatim>\<open>zodToTs\<close> and \<^verbatim>\<open>cleanId\<close> are functions and the constructor returns the value of
  the instance. What one generation could leave behind for the next is made explicit
  here. \<^verbatim>\<open>new Client(routing)\<close> allocates an instance with fields of its own
  (\<^verbatim>\<open>agg = []\<close>, \<^verbatim>\<open>registry = {}\<close>, \<^verbatim>\<open>paths = []\<close> are instance fields, not static ones): the
  instances live in a store, and a reference is an index into it. The imported functions
  \<^verbatim>\<open>zodToTs\<close>, \<^verbatim>\<open>cleanId\<close> and \<^verbatim>\<open>printNode\<close> may keep a state between calls (a cache, a
  counter): each of them takes the state of the libraries and returns it with its result.
\<close>

record 'l World =
  instances :: "Client list"
  libraries :: 'l

type_synonym 'l ZodToTs_call = "ZodType \<Rightarrow> string \<Rightarrow> bool \<Rightarrow> 'l \<Rightarrow> ZodToTsReturn \<times> 'l"

type_synonym 'l CleanId_call = "string \<Rightarrow> Method \<Rightarrow> string \<Rightarrow> 'l \<Rightarrow> string \<times> 'l"

type_synonym ('o, 'l) PrintNode_call = "Node \<Rightarrow> 'o \<Rightarrow> 'l \<Rightarrow> string \<times> 'l"

text \<open>
  The endpoint callback once more, statement by statement, on the instance \<^verbatim>\<open>this\<close> of the
  store and with the calls of the libraries in the order of the source: the two
  \<^verbatim>\<open>cleanId\<close>, then the two \<^verbatim>\<open>zodToTs\<close>.
\<close>

definition push :: "nat \<Rightarrow> Node list \<Rightarrow> Client list \<Rightarrow> Client list" where
  "push this nodes store = store[this := (store ! this)\<lparr>agg := agg (store ! this) @ nodes\<rparr>]"

definition endpointCb_call ::
  "'l ZodToTs_call \<Rightarrow> 'l CleanId_call \<Rightarrow> nat \<Rightarrow> Endpoint \<Rightarrow> string \<Rightarrow> Method \<Rightarrow>
     'l World \<Rightarrow> 'l World" where
  "endpointCb_call zodToTs cleanId this endpoint path method w =
     (case cleanId path method ''input'' (libraries w) of (inputId, l1) \<Rightarrow>
      case cleanId path method ''response'' l1 of (responseId, l2) \<Rightarrow>
      case zodToTs (getInputSchema endpoint) inputId True l2 of (input, l3) \<Rightarrow>
      case zodToTs
             (zod_or (getPositiveResponseSchema endpoint) (getNegativeResponseSchema endpoint))
             responseId True l3 of (response, l4) \<Rightarrow>
        let inputAlias = createTypeAlias (node input) inputId;
            responseAlias = createTypeAlias (node response) responseId;
            store1 = push this (map NativeEnum (store_nativeEnums input) @
                                map NativeEnum (store_nativeEnums response)) (instances w);
            store2 = push this [inputAlias] store1;
            store3 = push this [responseAlias] store2
        in \<lparr>instances =
              (if method \<noteq> Options
               then store3[this := (store3 ! this)
                      \<lparr>paths := paths (store3 ! this) @ [path],
                       registry := registry_set (registry (store3 ! this)) (methodPath method path)
                         \<lparr>reg_in = inputId, reg_out = responseId,
                          isJson = mimeJson \<in> set (getPositiveMimeTypes endpoint)\<rparr>\<rparr>]
               else store3),
            libraries = l4\<rparr>)"

text \<open>
  \<^verbatim>\<open>new Client(routing)\<close>: the instance is allocated at the end of the store with its
  fields initialised, the traversal runs the callback on it, and the constructor pushes
  the eight aggregate declarations, built from the fields of the instance. When the
  traversal throws, no reference to the instance is returned.
\<close>

definition new_Client ::
  "'l ZodToTs_call \<Rightarrow> 'l CleanId_call \<Rightarrow> Routing \<Rightarrow> 'l World \<Rightarrow>
     (Endpoint RoutingConflict + nat) \<times> 'l World" where
  "new_Client zodToTs cleanId routing w =
     (let this = length (instances w);
          allocated = w\<lparr>instances := instances w @ [Client_init]\<rparr>
      in case routingCycle routing (endpointCb_call zodToTs cleanId this) allocated of
           (Inl err, w') \<Rightarrow> (Inl err, w')
         | (Inr finished, w') \<Rightarrow>
             (Inr this,
              w'\<lparr>instances := push this
                    [pathNode (instances w' ! this), methodNode, methodPathNode,
                     inputNode (instances w' ! this), responseNode (instances w' ! this),
                     jsonEndpointsNode (instances w' ! this), providerNode, clientNode]
                    (instances w')\<rparr>))"

text \<open>
  \<^verbatim>\<open>print(printerOptions)\<close> of the instance \<^verbatim>\<open>this\<close>:
  \<^verbatim>\<open>this.agg.map((node) => printNode(node, printerOptions)).join("\n\n")\<close>, the nodes printed
  from left to right.
\<close>

fun print_nodes :: "('o, 'l) PrintNode_call \<Rightarrow> Node list \<Rightarrow> 'o \<Rightarrow> 'l \<Rightarrow> string list \<times> 'l" where
  "print_nodes printNode [] printerOptions l = ([], l)"
| "print_nodes printNode (nd # nds) printerOptions l =
     (case printNode nd printerOptions l of (out, l') \<Rightarrow>
        case print_nodes printNode nds printerOptions l' of (outs, l'') \<Rightarrow> (out # outs, l''))"

definition print :: "('o, 'l) PrintNode_call \<Rightarrow> nat \<Rightarrow> 'o \<Rightarrow> 'l World \<Rightarrow> string \<times> 'l World" where
  "print printNode this printerOptions w =
     (case print_nodes printNode (agg (instances w ! this)) printerOptions (libraries w) of
        (outs, l) \<Rightarrow> (join [CHR 0x0A, CHR 0x0A] outs, w\<lparr>libraries := l\<rparr>))"

section \<open>Reading the client artifact\<close>

text \<open>
  What a reader of the generated declarations finds under a name: the type of the exported
  alias of that name, the members of the interface of that name, the initializer of the
  constant of that name (the first such declaration in \<open>agg\<close>), and from these the string
  literals of a union alias, the keys of an interface and the keys of \<^verbatim>\<open>jsonEndpoints\<close>.
\<close>

fun exported_alias :: "string \<Rightarrow> Node list \<Rightarrow> TypeNode option" where
  "exported_alias n [] = None"
| "exported_alias n (TypeAliasDeclaration ms n' t # nds) =
     (if ExportKeyword \<in> set ms \<and> n' = n then Some t else exported_alias n nds)"
| "exported_alias n (_ # nds) = exported_alias n nds"

fun interface_members :: "string \<Rightarrow> Node list \<Rightarrow> (string \<times> TypeNode) list option" where
  "interface_members n [] = None"
| "interface_members n (InterfaceDeclaration ms n' h ps # nds) =
     (if n' = n then Some ps else interface_members n nds)"
| "interface_members n (_ # nds) = interface_members n nds"

fun const_initializer :: "string \<Rightarrow> Node list \<Rightarrow> Expression option" where
  "const_initializer n [] = None"
| "const_initializer n (ConstStatement ms n' e # nds) =
     (if n' = n then Some e else const_initializer n nds)"
| "const_initializer n (_ # nds) = const_initializer n nds"

fun literal_texts :: "TypeNode list \<Rightarrow> string list" where
  "literal_texts [] = []"
| "literal_texts (LiteralTypeNode s # ts) = s # literal_texts ts"
| "literal_texts (_ # ts) = literal_texts ts"

definition union_of_alias :: "string \<Rightarrow> Client \<Rightarrow> string list" where
  "union_of_alias n this =
     (case exported_alias n (agg this) of
        Some (UnionTypeNode ts) \<Rightarrow> literal_texts ts
      | _ \<Rightarrow> [])"

definition interface_keys :: "string \<Rightarrow> Client \<Rightarrow> string list" where
  "interface_keys n this =
     (case interface_members n (agg this) of Some ps \<Rightarrow> map fst ps | None \<Rightarrow> [])"

definition jsonEndpoints_keys :: "Client \<Rightarrow> string list" where
  "jsonEndpoints_keys this =
     (case const_initializer ''jsonEndpoints'' (agg this) of
        Some (ObjectLiteralExpression ps) \<Rightarrow> map fst ps
      | _ \<Rightarrow> [])"

section \<open>The constructor in closed form\<close>

text \<open>
  Auxiliary definitions for the proofs: the nodes one call of the endpoint callback pushes,
  the callbacks of a whole traversal, the registry entry a call writes and its key, the
  entries the callback registers (every method but \<^verbatim>\<open>options\<close>), the kind of node the
  callback pushes, and the eight aggregate declarations the constructor pushes last.
\<close>

definition entry_nodes :: "ZodToTs \<Rightarrow> CleanId \<Rightarrow> RouteEntry \<Rightarrow> Node list" where
  "entry_nodes zodToTs cleanId entry =
     (case entry of (endpoint, path, method) \<Rightarrow>
        map NativeEnum (store_nativeEnums (zodToTs (getInputSchema endpoint) (cleanId path method ''input'') True)) @
        map NativeEnum (store_nativeEnums (zodToTs
          (ZodUnion [getPositiveResponseSchema endpoint, getNegativeResponseSchema endpoint])
          (cleanId path method ''response'') True)) @
        [TypeAliasDeclaration [] (cleanId path method ''input'')
           (node (zodToTs (getInputSchema endpoint) (cleanId path method ''input'') True)),
         TypeAliasDeclaration [] (cleanId path method ''response'')
           (node (zodToTs (ZodUnion [getPositiveResponseSchema endpoint, getNegativeResponseSchema endpoint])
              (cleanId path method ''response'') True))])"

definition run_callbacks :: "ZodToTs \<Rightarrow> CleanId \<Rightarrow> Client \<Rightarrow> Routing \<Rightarrow> Client" where
  "run_callbacks z cid c r = foldl (\<lambda>s' (endpoint, path, method). endpointCb z cid endpoint path method s') c r"

definition registered :: "ZodToTs \<Rightarrow> CleanId \<Rightarrow> RouteEntry \<Rightarrow> string \<times> RegistryEntry" where
  "registered z cid entry =
     (case entry of (e, p, m) \<Rightarrow>
        (methodPath m p,
         \<lparr>reg_in = cid p m ''input'', reg_out = cid p m ''response'',
          isJson = mimeJson \<in> set (getPositiveMimeTypes e)\<rparr>))"

definition is_registered :: "RouteEntry \<Rightarrow> bool" where
  "is_registered entry = (case entry of (e, p, m) \<Rightarrow> m \<noteq> Options)"

definition entry_key :: "RouteEntry \<Rightarrow> string" where
  "entry_key entry = (case entry of (e, p, m) \<Rightarrow> methodPath m p)"

definition endpoint_node :: "Node \<Rightarrow> bool" where
  "endpoint_node nd =
     (case nd of NativeEnum _ \<Rightarrow> True | TypeAliasDeclaration ms _ _ \<Rightarrow> ms = [] | _ \<Rightarrow> False)"

definition aggregates :: "Client \<Rightarrow> Node list" where
  "aggregates this =
     [pathNode this, methodNode, methodPathNode, inputNode this, responseNode this,
      jsonEndpointsNode this, providerNode, clientNode]"

section \<open>Example inputs\<close>

text \<open>
  Instances of the parameters, for evaluating the model: a renderer in the manner of
  zod-to-ts (a union schema becomes the union of the renderings of its options, and there
  are no native enums), an identifier maker, two endpoints shaped like the user retrieval
  and avatar endpoints of the example API, a routing over them, and a routing whose third
  entry repeats the (method, path) pair of the first.
\<close>

fun zodToTsNode :: "ZodType \<Rightarrow> TypeNode" where
  "zodToTsNode ZodString = KeywordTypeNode ''string''"
| "zodToTsNode ZodNumber = KeywordTypeNode ''number''"
| "zodToTsNode (ZodLiteral s) = LiteralTypeNode s"
| "zodToTsNode (ZodObject shape) = TypeLiteralNode (map (\<lambda>(k, t). (k, zodToTsNode t)) shape)"
| "zodToTsNode (ZodArray t) = ArrayTypeNode (zodToTsNode t)"
| "zodToTsNode (ZodUnion options) = UnionTypeNode (map zodToTsNode options)"

definition example_zodToTs :: ZodToTs where
  "example_zodToTs schema identifier resolveNativeEnums =
     \<lparr>node = zodToTsNode schema, store_nativeEnums = []\<rparr>"

definition example_cleanId :: CleanId where
  "example_cleanId path method suffix =
     method_literal method @ map (\<lambda>c. if c = CHR ''/'' then CHR ''_'' else c) path @ ''_'' @ suffix"

definition retrieveUserEndpoint :: Endpoint where
  "retrieveUserEndpoint =
     \<lparr>getInputSchema = ZodObject [(''id'', ZodString)],
      getPositiveResponseSchema =
        ZodObject [(''status'', ZodLiteral ''success''),
                   (''data'', ZodObject [(''name'', ZodString)])],
      getNegativeResponseSchema =
        ZodObject [(''status'', ZodLiteral ''error''),
                   (''error'', ZodObject [(''message'', ZodString)])],
      getPositiveMimeTypes = [''application/json'']\<rparr>"

definition sendAvatarEndpoint :: Endpoint where
  "sendAvatarEndpoint =
     \<lparr>getInputSchema = ZodObject [(''userId'', ZodString)],
      getPositiveResponseSchema = ZodString,
      getNegativeResponseSchema = ZodString,
      getPositiveMimeTypes = [''image/svg+xml'']\<rparr>"

definition example_routing :: Routing where
  "example_routing =
     [(retrieveUserEndpoint, ''/v1/user/retrieve'', Get),
      (sendAvatarEndpoint, ''/v1/avatar/send'', Get),
      (sendAvatarEndpoint, ''/v1/avatar/send'', Options)]"

definition conflicting_routing :: Routing where
  "conflicting_routing =
     [(retrieveUserEndpoint, ''/v1/user/retrieve'', Get),
      (sendAvatarEndpoint, ''/v1/avatar/send'', Get),
      (sendAvatarEndpoint, ''/v1/user/retrieve'', Get)]"

text \<open>
  Libraries for the store of instances: the renderer and the identifier maker above, which
  keep no state (the state, a number, is passed on as it is); a printer that prints the
  kind and name of a declaration and counts its calls without letting the count show; and an
  identifier maker that does let a count show, numbering the identifiers it makes.
\<close>

definition stateless_zodToTs :: "nat ZodToTs_call" where
  "stateless_zodToTs schema identifier resolveNativeEnums l =
     (example_zodToTs schema identifier resolveNativeEnums, l)"

definition stateless_cleanId :: "nat CleanId_call" where
  "stateless_cleanId path method suffix l = (example_cleanId path method suffix, l)"

definition example_printNode :: "(unit, nat) PrintNode_call" where
  "example_printNode nd printerOptions l =
     (case nd of
        NativeEnum e \<Rightarrow> ''enum '' @ enum_name e
      | TypeAliasDeclaration ms n t \<Rightarrow> ''type '' @ n
      | InterfaceDeclaration ms n h ps \<Rightarrow> ''interface '' @ n
      | ConstStatement ms n e \<Rightarrow> ''const '' @ n
      | ClassDeclaration ms n es c \<Rightarrow> ''class '' @ n,
      Suc l)"

definition numbering_cleanId :: "nat CleanId_call" where
  "numbering_cleanId path method suffix l =
     (example_cleanId path method suffix @ replicate l CHR ''_'', Suc l)"

text \<open>The world before the first generation: no instance, and the libraries at their start.\<close>

definition start :: "nat World" where
  "start = \<lparr>instances = [], libraries = 0\<rparr>"
section \<open>The example documentation\<close>

text \<open>
  The OpenAPI document of the example API (version 15.2.0), which the repository keeps in
  YAML, as a value: mappings and sequences keep their order, scalars are strings
  (as UTF-8 bytes), integers or booleans.
\<close>

datatype Yaml = Str string | Num int | Bool bool | Seq "Yaml list" | Map "(string \<times> Yaml) list"

text \<open>Looking a key up in a mapping, and following a path of keys from the root.\<close>

fun yaml_get :: "Yaml \<Rightarrow> string \<Rightarrow> Yaml option" where
  "yaml_get (Map entries) k = map_of entries k"
| "yaml_get _ k = None"

fun yaml_at :: "Yaml \<Rightarrow> string list \<Rightarrow> Yaml option" where
  "yaml_at y [] = Some y"
| "yaml_at y (k # ks) = (case yaml_get y k of None \<Rightarrow> None | Some v \<Rightarrow> yaml_at v ks)"

text \<open>The keys of a mapping and the items of a sequence.\<close>

fun keys :: "Yaml \<Rightarrow> string list" where
  "keys (Map entries) = map fst entries"
| "keys _ = []"

fun items :: "Yaml \<Rightarrow> Yaml list" where
  "items (Seq ys) = ys"
| "items _ = []"

text \<open>Every value of a \<^verbatim>\<open>$ref\<close> key of a document, in document order.\<close>

fun refs :: "Yaml \<Rightarrow> string list"
  and refs_list :: "Yaml list \<Rightarrow> string list"
  and refs_entries :: "(string \<times> Yaml) list \<Rightarrow> string list" where
  "refs (Str s) = []"
| "refs (Num n) = []"
| "refs (Bool b) = []"
| "refs (Seq ys) = refs_list ys"
| "refs (Map entries) = refs_entries entries"
| "refs_list [] = []"
| "refs_list (y # ys) = refs y @ refs_list ys"
| "refs_entries [] = []"
| "refs_entries ((k, v) # entries) =
     (case v of Str s \<Rightarrow> (if k = ''$ref'' then [s] else []) | _ \<Rightarrow> refs v) @ refs_entries entries"

text \<open>Whether a string starts with another, whether it contains another, and the digits
  of a hexadecimal numeral.\<close>

definition starts_with :: "'a list \<Rightarrow> 'a list \<Rightarrow> bool" where
  "starts_with ys xs = (take (length xs) ys = xs)"

fun is_infix :: "'a list \<Rightarrow> 'a list \<Rightarrow> bool" where
  "is_infix xs [] = (xs = [])"
| "is_infix xs (y # ys) = (starts_with (y # ys) xs \<or> is_infix xs ys)"

definition hex_digit :: "char \<Rightarrow> bool" where
  "hex_digit c = (c \<in> set ''0123456789abcdef'')"

definition example_documentation :: Yaml where
  "example_documentation =
     Map [
       (''openapi'', Str ''3.0.0''),
       (''info'', Map [
         (''title'', Str ''Example API''),
         (''version'', Str ''15.2.0'')]),
       (''paths'', Map [
         (''/v1/user/retrieve'', Map [
           (''get'', Map [
             (''operationId'', Str ''GetV1UserRetrieve''),
             (''responses'', Map [
               (''200'', Map [
                 (''description'', Str ''GET /v1/user/retrieve Successful response''),
                 (''content'', Map [
                   (''application/json'', Map [
                     (''schema'', Map [
                       (''type'', Str ''object''),
                       (''properties'', Map [
                         (''status'', Map [
                           (''type'', Str ''string''),
                           (''enum'', Seq [Str ''success''])]),
                         (''data'', Map [
                           (''type'', Str ''object''),
                           (''properties'', Map [
                             (''id'', Map [
                               (''type'', Str ''integer''),
                               (''format'', Str ''int64''),
                               (''minimum'', Num 0),
                               (''exclusiveMinimum'', Bool False),
                               (''maximum'', Num 9007199254740991),
                               (''exclusiveMaximum'', Bool False)]),
                             (''name'', Map [(''type'', Str ''string'')]),
                             (''features'', Map [
                               (''type'', Str ''array''),
                               (''items'', Map [
                                 (''type'', Str ''object''),
                                 (''properties'', Map [
                                   (''title'', Map [(''type'', Str ''string'')]),
                                   (''features'', Map [
                                     (''$ref'', Str ''#/components/schemas/2048581c137c5b2130eb860e3ae37da196dfc25b'')])]),
                                 (''required'', Seq [Str ''title'', Str ''features''])])])]),
                           (''required'', Seq [Str ''id'', Str ''name'', Str ''features''])])]),
                       (''required'', Seq [Str ''status'', Str ''data''])])])])]),
               (''400'', Map [
                 (''description'', Str ''GET /v1/user/retrieve Error response''),
                 (''content'', Map [
                   (''application/json'', Map [
                     (''schema'', Map [
                       (''type'', Str ''object''),
                       (''properties'', Map [
                         (''status'', Map [
                           (''type'', Str ''string''),
                           (''enum'', Seq [Str ''error''])]),
                         (''error'', Map [
                           (''type'', Str ''object''),
                           (''properties'', Map [(''message'', Map [(''type'', Str ''string'')])]),
                           (''required'', Seq [Str ''message''])])]),
                       (''required'', Seq [Str ''status'', Str ''error''])]),
                     (''examples'', Map [
                       (''example1'', Map [
                         (''value'', Map [
                           (''status'', Str ''error''),
                           (''error'', Map [(''message'', Str ''Sample error message'')])])])])])])])]),
             (''description'', Str ''Example user retrieval endpoint.''),
             (''summary'', Str ''Retrieves the user.''),
             (''tags'', Seq [Str ''users'']),
             (''parameters'', Seq [
               Map [
                 (''name'', Str ''id''),
                 (''in'', Str ''query''),
                 (''required'', Bool True),
                 (''description'', Str ''a numeric string containing the id of the user''),
                 (''schema'', Map [
                   (''type'', Str ''string''),
                   (''pattern'', Str (''/'' @ [CHR 0x5C] @ ''d+/'')),
                   (''description'', Str ''a numeric string containing the id of the user'')])]])])]),
         (''/v1/user/{id}'', Map [
           (''post'', Map [
             (''operationId'', Str ''PostV1UserId''),
             (''responses'', Map [
               (''200'', Map [
                 (''description'', Str ''POST /v1/user/:id Successful response''),
                 (''content'', Map [
                   (''application/json'', Map [
                     (''schema'', Map [
                       (''type'', Str ''object''),
                       (''properties'', Map [
                         (''status'', Map [
                           (''type'', Str ''string''),
                           (''enum'', Seq [Str ''success''])]),
                         (''data'', Map [
                           (''type'', Str ''object''),
                           (''properties'', Map [
                             (''name'', Map [(''type'', Str ''string'')]),
                             (''createdAt'', Map [
                               (''description'', Str ''YYYY-MM-DDTHH:mm:ss.sssZ''),
                               (''type'', Str ''string''),
                               (''format'', Str ''date-time''),
                               (''externalDocs'', Map [
                                 (''url'', Str ''https://developer.mozilla.org/en-US/docs/Web/JavaScript/Reference/Global_Objects/Date/toISOString'')])])]),
                           (''required'', Seq [Str ''name'', Str ''createdAt'']),
                           (''example'', Map [
                             (''name'', Str ''John Doe''),
                             (''createdAt'', Str ''2021-12-31T00:00:00.000Z'')])])]),
                       (''required'', Seq [Str ''status'', Str ''data''])]),
                     (''examples'', Map [
                       (''example1'', Map [
                         (''value'', Map [
                           (''status'', Str ''success''),
                           (''data'', Map [
                             (''name'', Str ''John Doe''),
                             (''createdAt'', Str ''2021-12-31T00:00:00.000Z'')])])])])])])]),
               (''400'', Map [
                 (''description'', Str ''POST /v1/user/:id Error response''),
                 (''content'', Map [
                   (''application/json'', Map [
                     (''schema'', Map [
                       (''type'', Str ''object''),
                       (''properties'', Map [
                         (''status'', Map [
                           (''type'', Str ''string''),
                           (''enum'', Seq [Str ''error''])]),
                         (''error'', Map [
                           (''type'', Str ''object''),
                           (''properties'', Map [(''message'', Map [(''type'', Str ''string'')])]),
                           (''required'', Seq [Str ''message''])])]),
                       (''required'', Seq [Str ''status'', Str ''error''])]),
                     (''examples'', Map [
                       (''example1'', Map [
                         (''value'', Map [
                           (''status'', Str ''error''),
                           (''error'', Map [(''message'', Str ''Sample error message'')])])])])])])])]),
             (''description'', Str ''Changes the user record. Example user update endpoint.''),
             (''summary'', Str (''Changes the user record. Example user update endp'' @ [CHR 0xE2, CHR 0x80, CHR 0xA6])),
             (''tags'', Seq [Str ''users'']),
             (''parameters'', Seq [
               Map [
                 (''name'', Str ''id''),
                 (''in'', Str ''path''),
                 (''required'', Bool True),
                 (''description'', Str ''POST /v1/user/:id parameter''),
                 (''schema'', Map [(''type'', Str ''string'')]),
                 (''examples'', Map [(''example1'', Map [(''value'', Str ''12'')])])]]),
             (''requestBody'', Map [
               (''description'', Str ''POST /v1/user/:id request body''),
               (''content'', Map [
                 (''application/json'', Map [
                   (''schema'', Map [
                     (''allOf'', Seq [
                       Map [
                         (''type'', Str ''object''),
                         (''properties'', Map [
                           (''key'', Map [
                             (''type'', Str ''string''),
                             (''minLength'', Num 1)])]),
                         (''required'', Seq [Str ''key'']),
                         (''example'', Map [(''key'', Str ''1234-5678-90'')])],
                       Map [
                         (''type'', Str ''object''),
                         (''properties'', Map [
                           (''name'', Map [
                             (''type'', Str ''string''),
                             (''minLength'', Num 1)]),
                           (''birthday'', Map [
                             (''description'', Str ''YYYY-MM-DDTHH:mm:ss.sssZ''),
                             (''type'', Str ''string''),
                             (''format'', Str ''date-time''),
                             (''pattern'', Str (''^'' @ [CHR 0x5C] @ ''d{4}-'' @ [CHR 0x5C] @ ''d{2}-'' @ [CHR 0x5C] @ ''d{2}(T'' @ [CHR 0x5C] @ ''d{2}:'' @ [CHR 0x5C] @ ''d{2}:'' @ [CHR 0x5C] @ ''d{2}('' @ [CHR 0x5C] @ ''.'' @ [CHR 0x5C] @ ''d+)?)?Z?$'')),
                             (''externalDocs'', Map [
                               (''url'', Str ''https://developer.mozilla.org/en-US/docs/Web/JavaScript/Reference/Global_Objects/Date/toISOString'')])])]),
                         (''required'', Seq [Str ''name'', Str ''birthday'']),
                         (''example'', Map [
                           (''name'', Str ''John Doe''),
                           (''birthday'', Str ''1963-04-21'')])]])]),
                   (''examples'', Map [
                     (''example1'', Map [
                       (''value'', Map [
                         (''key'', Str ''1234-5678-90''),
                         (''name'', Str ''John Doe''),
                         (''birthday'', Str ''1963-04-21'')])])])])])]),
             (''security'', Seq [
               Map [
                 (''APIKEY_1'', Seq []),
                 (''APIKEY_2'', Seq [])]])])]),
         (''/v1/user/list'', Map [
           (''get'', Map [
             (''operationId'', Str ''GetV1UserList''),
             (''responses'', Map [
               (''200'', Map [
                 (''description'', Str ''GET /v1/user/list Successful response''),
                 (''content'', Map [
                   (''application/json'', Map [
                     (''schema'', Map [
                       (''type'', Str ''array''),
                       (''items'', Map [
                         (''type'', Str ''object''),
                         (''properties'', Map [(''name'', Map [(''type'', Str ''string'')])]),
                         (''required'', Seq [Str ''name''])])]),
                     (''examples'', Map [
                       (''example1'', Map [
                         (''value'', Seq [
                           Map [(''name'', Str ''Hunter Schafer'')],
                           Map [(''name'', Str ''Laverne Cox'')],
                           Map [(''name'', Str ''Patti Harrison'')]])])])])])]),
               (''400'', Map [
                 (''description'', Str ''GET /v1/user/list Error response''),
                 (''content'', Map [
                   (''application/json'', Map [
                     (''schema'', Map [(''type'', Str ''string'')]),
                     (''examples'', Map [
                       (''example1'', Map [(''value'', Str ''Sample error message'')])])])])])]),
             (''tags'', Seq [Str ''users''])])]),
         (''/v1/avatar/send'', Map [
           (''get'', Map [
             (''operationId'', Str ''GetV1AvatarSend''),
             (''responses'', Map [
               (''200'', Map [
                 (''description'', Str ''GET /v1/avatar/send Successful response''),
                 (''content'', Map [
                   (''image/svg+xml'', Map [(''schema'', Map [(''type'', Str ''string'')])])])]),
               (''400'', Map [
                 (''description'', Str ''GET /v1/avatar/send Error response''),
                 (''content'', Map [
                   (''text/plain'', Map [(''schema'', Map [(''type'', Str ''string'')])])])])]),
             (''summary'', Str ''Sends a file content.''),
             (''tags'', Seq [Str ''files'', Str ''users'']),
             (''parameters'', Seq [
               Map [
                 (''name'', Str ''userId''),
                 (''in'', Str ''query''),
                 (''required'', Bool True),
                 (''description'', Str ''GET /v1/avatar/send parameter''),
                 (''schema'', Map [
                   (''type'', Str ''string''),
                   (''pattern'', Str (''/'' @ [CHR 0x5C] @ ''d+/''))])]])])]),
         (''/v1/avatar/stream'', Map [
           (''get'', Map [
             (''operationId'', Str ''GetV1AvatarStream''),
             (''responses'', Map [
               (''200'', Map [
                 (''description'', Str ''GET /v1/avatar/stream Successful response''),
                 (''content'', Map [
                   (''image/*'', Map [
                     (''schema'', Map [
                       (''type'', Str ''string''),
                       (''format'', Str ''binary'')])])])]),
               (''400'', Map [
                 (''description'', Str ''GET /v1/avatar/stream Error response''),
                 (''content'', Map [
                   (''text/plain'', Map [(''schema'', Map [(''type'', Str ''string'')])])])])]),
             (''summary'', Str ''Streams a file content.''),
             (''tags'', Seq [Str ''users'', Str ''files'']),
             (''parameters'', Seq [
               Map [
                 (''name'', Str ''userId''),
                 (''in'', Str ''query''),
                 (''required'', Bool True),
                 (''description'', Str ''GET /v1/avatar/stream parameter''),
                 (''schema'', Map [
                   (''type'', Str ''string''),
                   (''pattern'', Str (''/'' @ [CHR 0x5C] @ ''d+/''))])]])])]),
         (''/v1/avatar/upload'', Map [
           (''post'', Map [
             (''operationId'', Str ''PostV1AvatarUpload''),
             (''responses'', Map [
               (''200'', Map [
                 (''description'', Str ''POST /v1/avatar/upload Successful response''),
                 (''content'', Map [
                   (''application/json'', Map [
                     (''schema'', Map [
                       (''type'', Str ''object''),
                       (''properties'', Map [
                         (''status'', Map [
                           (''type'', Str ''string''),
                           (''enum'', Seq [Str ''success''])]),
                         (''data'', Map [
                           (''type'', Str ''object''),
                           (''properties'', Map [
                             (''name'', Map [(''type'', Str ''string'')]),
                             (''size'', Map [
                               (''type'', Str ''integer''),
                               (''format'', Str ''int64''),
                               (''minimum'', Num 0),
                               (''exclusiveMinimum'', Bool False),
                               (''maximum'', Num 9007199254740991),
                               (''exclusiveMaximum'', Bool False)]),
                             (''mime'', Map [(''type'', Str ''string'')]),
                             (''hash'', Map [(''type'', Str ''string'')]),
                             (''otherInputs'', Map [
                               (''type'', Str ''object''),
                               (''additionalProperties'', Map [(''format'', Str ''any'')])])]),
                           (''required'', Seq [Str ''name'', Str ''size'', Str ''mime'', Str ''hash'', Str ''otherInputs''])])]),
                       (''required'', Seq [Str ''status'', Str ''data''])])])])]),
               (''400'', Map [
                 (''description'', Str ''POST /v1/avatar/upload Error response''),
                 (''content'', Map [
                   (''application/json'', Map [
                     (''schema'', Map [
                       (''type'', Str ''object''),
                       (''properties'', Map [
                         (''status'', Map [
                           (''type'', Str ''string''),
                           (''enum'', Seq [Str ''error''])]),
                         (''error'', Map [
                           (''type'', Str ''object''),
                           (''properties'', Map [(''message'', Map [(''type'', Str ''string'')])]),
                           (''required'', Seq [Str ''message''])])]),
                       (''required'', Seq [Str ''status'', Str ''error''])]),
                     (''examples'', Map [
                       (''example1'', Map [
                         (''value'', Map [
                           (''status'', Str ''error''),
                           (''error'', Map [(''message'', Str ''Sample error message'')])])])])])])])]),
             (''description'', Str ''Handles a file upload.''),
             (''summary'', Str ''Handles a file upload.''),
             (''tags'', Seq [Str ''files'']),
             (''requestBody'', Map [
               (''description'', Str ''POST /v1/avatar/upload request body''),
               (''content'', Map [
                 (''multipart/form-data'', Map [
                   (''schema'', Map [
                     (''type'', Str ''object''),
                     (''properties'', Map [
                       (''avatar'', Map [
                         (''type'', Str ''string''),
                         (''format'', Str ''binary'')])]),
                     (''required'', Seq [Str ''avatar''])])])])])])]),
         (''/v1/avatar/raw'', Map [
           (''post'', Map [
             (''operationId'', Str ''PostV1AvatarRaw''),
             (''responses'', Map [
               (''200'', Map [
                 (''description'', Str ''POST /v1/avatar/raw Successful response''),
                 (''content'', Map [
                   (''application/json'', Map [
                     (''schema'', Map [
                       (''type'', Str ''object''),
                       (''properties'', Map [
                         (''status'', Map [
                           (''type'', Str ''string''),
                           (''enum'', Seq [Str ''success''])]),
                         (''data'', Map [
                           (''type'', Str ''object''),
                           (''properties'', Map [
                             (''length'', Map [
                               (''type'', Str ''integer''),
                               (''format'', Str ''int64''),
                               (''minimum'', Num 0),
                               (''exclusiveMinimum'', Bool False),
                               (''maximum'', Num 9007199254740991),
                               (''exclusiveMaximum'', Bool False)])]),
                           (''required'', Seq [Str ''length''])])]),
                       (''required'', Seq [Str ''status'', Str ''data''])])])])]),
               (''400'', Map [
                 (''description'', Str ''POST /v1/avatar/raw Error response''),
                 (''content'', Map [
                   (''application/json'', Map [
                     (''schema'', Map [
                       (''type'', Str ''object''),
                       (''properties'', Map [
                         (''status'', Map [
                           (''type'', Str ''string''),
                           (''enum'', Seq [Str ''error''])]),
                         (''error'', Map [
                           (''type'', Str ''object''),
                           (''properties'', Map [(''message'', Map [(''type'', Str ''string'')])]),
                           (''required'', Seq [Str ''message''])])]),
                       (''required'', Seq [Str ''status'', Str ''error''])]),
                     (''examples'', Map [
                       (''example1'', Map [
                         (''value'', Map [
                           (''status'', Str ''error''),
                           (''error'', Map [(''message'', Str ''Sample error message'')])])])])])])])]),
             (''tags'', Seq [Str ''files'']),
             (''requestBody'', Map [
               (''description'', Str ''POST /v1/avatar/raw request body''),
               (''content'', Map [
                 (''application/octet-stream'', Map [
                   (''schema'', Map [
                     (''type'', Str ''string''),
                     (''format'', Str ''binary'')])])])])])])]),
       (''components'', Map [
         (''schemas'', Map [
           (''2048581c137c5b2130eb860e3ae37da196dfc25b'', Map [
             (''type'', Str ''array''),
             (''items'', Map [
               (''type'', Str ''object''),
               (''properties'', Map [
                 (''title'', Map [(''type'', Str ''string'')]),
                 (''features'', Map [
                   (''$ref'', Str ''#/components/schemas/2048581c137c5b2130eb860e3ae37da196dfc25b'')])]),
               (''required'', Seq [Str ''title'', Str ''features''])])])]),
         (''responses'', Map []),
         (''parameters'', Map []),
         (''examples'', Map []),
         (''requestBodies'', Map []),
         (''headers'', Map []),
         (''securitySchemes'', Map [
           (''APIKEY_1'', Map [
             (''type'', Str ''apiKey''),
             (''in'', Str ''query''),
             (''name'', Str ''key'')]),
           (''APIKEY_2'', Map [
             (''type'', Str ''apiKey''),
             (''in'', Str ''header''),
             (''name'', Str ''token'')])]),
         (''links'', Map []),
         (''callbacks'', Map [])]),
       (''tags'', Seq [
         Map [
           (''name'', Str ''users''),
           (''description'', Str ''Everything about the users'')],
         Map [
           (''name'', Str ''files''),
           (''description'', Str ''Everything about the files processing'')]]),
       (''servers'', Seq [
         Map [(''url'', Str ''https://example.com'')]])]"

text \<open>
  The value at a path of the example documentation (the empty mapping where the path
  leads nowhere), the names registered under \<^verbatim>\<open>components.schemas\<close>, the reference to a
  component of a given name, and the paths to the operation \<^verbatim>\<open>GET /v1/user/retrieve\<close> and
  to the JSON schema of its response of a given status code.
\<close>

definition at :: "string list \<Rightarrow> Yaml" where
  "at ks = (case yaml_at example_documentation ks of Some y \<Rightarrow> y | None \<Rightarrow> Map [])"


definition schema_ref :: "string \<Rightarrow> string" where
  "schema_ref n = ''#/components/schemas/'' @ n"

definition retrieve_get :: "string list" where
  "retrieve_get = [''paths'', ''/v1/user/retrieve'', ''get'']"

definition response_schema :: "string \<Rightarrow> string list" where
  "response_schema code = retrieve_get @ [''responses'', code, ''content'', ''application/json'', ''schema'']"

section \<open>The schema walker and the reference resolver\<close>

text \<open>
  Modelled from the spec: the schema walker and the reference resolver (the document
  helpers of the repository) are not among the sources; only the document they produced
  is. The model follows sections 3, 4.1, 4.2 and 7 of the specification.

  A schema tree that may refer back to itself is a graph: every node has an identity, a
  variant of the data model with the identities of its children, and metadata of any type.
  The same node met twice has the same identity. Constraints are pairs of a keyword and a
  value, literals are values.
\<close>

type_synonym Identity = nat

datatype SchemaNode =
    Primitive string "(string \<times> Yaml) list"
  | Object "(string \<times> Identity) list" "string list"
  | Array Identity "(string \<times> Yaml) list"
  | Union' "Identity list"
  | Intersection "Identity list"
  | Enum "Yaml list"
  | Optional Identity
  | Nullable Identity
  | Default Identity Yaml
  | Transformed Identity string
  | Reference Identity
  | Unsupported string

type_synonym 'm SchemaGraph = "(Identity \<times> SchemaNode \<times> 'm) list"

text \<open>
  Modelled from the spec: the children of a node in the order the walker visits them, the
  variants that are an object or array boundary, the kinds no renderer supports, the
  wrappers (optional, nullable, default), which are unwrapped before dispatch, and the kind
  of a variant.
\<close>

fun children :: "SchemaNode \<Rightarrow> Identity list" where
  "children (Primitive k constraints) = []"
| "children (Object members required) = map snd members"
| "children (Array element constraints) = [element]"
| "children (Union' options) = options"
| "children (Intersection parts) = parts"
| "children (Enum literals) = []"
| "children (Optional inner) = [inner]"
| "children (Nullable inner) = [inner]"
| "children (Default inner v) = [inner]"
| "children (Transformed inner h) = [inner]"
| "children (Reference target) = [target]"
| "children (Unsupported k) = []"

fun boundary :: "SchemaNode \<Rightarrow> bool" where
  "boundary (Object members required) = True"
| "boundary (Array element constraints) = True"
| "boundary _ = False"

fun unsupported :: "SchemaNode \<Rightarrow> bool" where
  "unsupported (Unsupported k) = True"
| "unsupported _ = False"

fun wrapper :: "SchemaNode \<Rightarrow> bool" where
  "wrapper (Optional inner) = True"
| "wrapper (Nullable inner) = True"
| "wrapper (Default inner v) = True"
| "wrapper _ = False"

fun kind :: "SchemaNode \<Rightarrow> string" where
  "kind (Primitive k constraints) = k"
| "kind (Object members required) = ''object''"
| "kind (Array element constraints) = ''array''"
| "kind (Union' options) = ''union''"
| "kind (Intersection parts) = ''intersection''"
| "kind (Enum literals) = ''enum''"
| "kind (Optional inner) = ''optional''"
| "kind (Nullable inner) = ''nullable''"
| "kind (Default inner v) = ''default''"
| "kind (Transformed inner h) = h"
| "kind (Reference target) = ''reference''"
| "kind (Unsupported k) = k"

text \<open>
  Modelled from the spec: the failures of a walk. An unsupported kind and an unrenderable
  cycle carry the chain of identities from the root of the walk to the offending node; an
  intersection conflict reports the field name and the two kinds; a collision of component
  names reports the name and both colliding entries.
\<close>

datatype 'f WalkError =
    UnsupportedSchemaError "Identity list"
  | UnrenderableCycleError "Identity list"
  | IntersectionConflictError string string string
  | ComponentNameCollisionError string 'f 'f

text \<open>
  Modelled from the spec: the context a renderer receives; the parameters of a walker (the
  renderer table as one function of the node, its metadata and the fragments of its
  children; the way the consumer writes a reference to a name; the generator of names, a
  function of the hint, the counter and the identity; and the name of the endpoint the
  walk is for); and the resolver state of one run: the names reserved, the named
  components registered, and the nodes fully visited with their fragments.
\<close>

record 'm Context =
  graph :: "'m SchemaGraph"
  walk_path :: "Identity list"

record ('m, 'f) Walker =
  renderer :: "'m Context \<Rightarrow> SchemaNode \<Rightarrow> 'm \<Rightarrow> 'f list \<Rightarrow> 'f"
  reference :: "string \<Rightarrow> 'f"
  naming :: "string \<Rightarrow> nat \<Rightarrow> Identity \<Rightarrow> string"
  origin :: string

record 'f Resolver =
  names :: "(Identity \<times> string) list"
  components :: "(string \<times> 'f) list"
  visited :: "(Identity \<times> 'f) list"

text \<open>
  Modelled from the spec: the hint for the name of a node is the name of its nearest
  ancestor field, found on the chain from the node up to the root of the walk (the first
  object on the way up that has the node below it as a member), or else the name of the
  endpoint.
\<close>

fun field_name :: "SchemaNode \<Rightarrow> Identity \<Rightarrow> string option" where
  "field_name (Object members required) c = map_option fst (find (\<lambda>(n, t). t = c) members)"
| "field_name _ c = None"

fun nearest_field :: "'m SchemaGraph \<Rightarrow> Identity list \<Rightarrow> string option" where
  "nearest_field g (c # p # up) =
     (case map_of g p of
        Some (v, m) \<Rightarrow>
          (case field_name v c of Some n \<Rightarrow> Some n | None \<Rightarrow> nearest_field g (p # up))
      | None \<Rightarrow> nearest_field g (p # up))"
| "nearest_field g _ = None"

definition hint :: "('m, 'f) Walker \<Rightarrow> 'm SchemaGraph \<Rightarrow> Identity list \<Rightarrow> string" where
  "hint W g up = (case nearest_field g up of Some n \<Rightarrow> n | None \<Rightarrow> origin W)"

text \<open>
  Modelled from the spec: a generated name that is taken gets a disambiguating suffix, the
  shortest run of underscores that makes it free (among one more candidates than there are
  names taken, one is free).
\<close>

definition suffixed :: "string \<Rightarrow> nat \<Rightarrow> string" where
  "suffixed base k = base @ replicate k CHR ''_''"

definition disambiguate :: "string list \<Rightarrow> string \<Rightarrow> string" where
  "disambiguate taken base =
     (case find (\<lambda>n. n \<notin> set taken) (map (suffixed base) [0..<Suc (length taken)]) of
        Some n \<Rightarrow> n
      | None \<Rightarrow> suffixed base (Suc (length taken)))"

text \<open>
  Modelled from the spec: \<open>reserve\<close> returns the name of an identity, the same on every
  call; the first call generates it from the hint, the counter (the number of names
  reserved so far) and the identity, and disambiguates it. \<open>register\<close> registers a named
  component once: a name that is registered already is a collision. A node is in flight
  while it is on the stack of the walk (the stack is \<open>markInFlight\<close> and \<open>clearInFlight\<close>
  around the rendering of the children); a cycle found at an identity in flight passes
  through a boundary when that node or one above it on the stack, up to its
  occurrence there, is an object or an array. \<open>complete\<close> records a fully visited node and,
  when a reference to it was reserved meanwhile, registers its fragment under the reserved
  name (the deferred body).
\<close>

definition reserve ::
  "('m, 'f) Walker \<Rightarrow> 'm SchemaGraph \<Rightarrow> Identity list \<Rightarrow> Identity \<Rightarrow> 'f Resolver \<Rightarrow>
     string \<times> 'f Resolver" where
  "reserve W g up i st =
     (case map_of (names st) i of
        Some n \<Rightarrow> (n, st)
      | None \<Rightarrow>
          (let n = disambiguate (map snd (names st) @ map fst (components st))
                     (naming W (hint W g up) (length (names st)) i)
           in (n, st\<lparr>names := names st @ [(i, n)]\<rparr>)))"

definition register :: "string \<Rightarrow> 'f \<Rightarrow> 'f Resolver \<Rightarrow> 'f WalkError + 'f Resolver" where
  "register n body st =
     (case map_of (components st) n of
        Some other \<Rightarrow> Inl (ComponentNameCollisionError n other body)
      | None \<Rightarrow> Inr (st\<lparr>components := components st @ [(n, body)]\<rparr>))"

definition isInFlight :: "Identity list \<Rightarrow> Identity \<Rightarrow> bool" where
  "isInFlight stack i = (i \<in> set stack)"

definition is_boundary :: "'m SchemaGraph \<Rightarrow> Identity \<Rightarrow> bool" where
  "is_boundary g i = (case map_of g i of Some (v, m) \<Rightarrow> boundary v | None \<Rightarrow> False)"

definition cycle_through_boundary :: "'m SchemaGraph \<Rightarrow> Identity list \<Rightarrow> Identity \<Rightarrow> bool" where
  "cycle_through_boundary g stack i =
     list_ex (is_boundary g) (i # takeWhile (\<lambda>j. j \<noteq> i) stack)"

definition complete :: "Identity \<Rightarrow> 'f \<Rightarrow> 'f Resolver \<Rightarrow> 'f WalkError + 'f Resolver" where
  "complete i body st =
     (let st' = st\<lparr>visited := visited st @ [(i, body)]\<rparr>
      in case map_of (names st') i of
           Some n \<Rightarrow> register n body st'
         | None \<Rightarrow> Inr st')"

text \<open>
  Modelled from the spec: the members of an intersection are merged field by field, and two
  members that declare the same field name with different kinds are a conflict. The
  fields a member declares are those of an object; the kind of a field is the kind of its
  node, looked at through its wrappers (at most as many as the graph has nodes).
\<close>

fun unwrap :: "'m SchemaGraph \<Rightarrow> nat \<Rightarrow> Identity \<Rightarrow> SchemaNode list" where
  "unwrap g 0 c = []"
| "unwrap g (Suc n) c =
     (case map_of g c of
        Some (v, m) \<Rightarrow> if wrapper v then v # unwrap g n (hd (children v)) else [v]
      | None \<Rightarrow> [])"

definition kind_at :: "'m SchemaGraph \<Rightarrow> Identity \<Rightarrow> string" where
  "kind_at g c =
     (case rev (unwrap g (length g) c) of v # wrappers \<Rightarrow> kind v | [] \<Rightarrow> ''unknown'')"

definition fields_of :: "'m SchemaGraph \<Rightarrow> Identity \<Rightarrow> (string \<times> string) list" where
  "fields_of g p =
     (case map_of g p of
        Some (Object members required, m) \<Rightarrow> map (\<lambda>(n, c). (n, kind_at g c)) members
      | _ \<Rightarrow> [])"

fun conflict_in :: "(string \<times> string) list \<Rightarrow> (string \<times> string \<times> string) option" where
  "conflict_in [] = None"
| "conflict_in ((n, k) # later) =
     (case find (\<lambda>(n', k'). n' = n \<and> k' \<noteq> k) later of
        Some (n', k') \<Rightarrow> Some (n, k, k')
      | None \<Rightarrow> conflict_in later)"

definition intersection_conflict ::
  "'m SchemaGraph \<Rightarrow> SchemaNode \<Rightarrow> (string \<times> string \<times> string) option" where
  "intersection_conflict g v =
     (case v of
        Intersection parts \<Rightarrow> conflict_in (concat (map (fields_of g) parts))
      | _ \<Rightarrow> None)"

text \<open>
  Modelled from the spec: a wrapper is not dispatched to the renderer table, its fragment
  is the fragment of what it wraps (the parent folds the effect of the wrapper into its
  own fragment, reading the graph of its context); every other node is rendered by the
  table from the fragments of its children. A node is finished by rendering it, unless it
  is an intersection in conflict, and completing it.
\<close>

definition dispatch ::
  "('m, 'f) Walker \<Rightarrow> 'm Context \<Rightarrow> SchemaNode \<Rightarrow> 'm \<Rightarrow> 'f list \<Rightarrow> 'f" where
  "dispatch W ctx v meta fs =
     (case (wrapper v, fs) of
        (True, [f]) \<Rightarrow> f
      | _ \<Rightarrow> renderer W ctx v meta fs)"

definition finish ::
  "('m, 'f) Walker \<Rightarrow> 'm Context \<Rightarrow> Identity \<Rightarrow> SchemaNode \<Rightarrow> 'm \<Rightarrow> 'f list \<Rightarrow> 'f Resolver \<Rightarrow>
     ('f WalkError + 'f) \<times> 'f Resolver" where
  "finish W ctx i v meta fs st =
     (case intersection_conflict (graph ctx) v of
        Some (field, k1, k2) \<Rightarrow> (Inl (IntersectionConflictError field k1 k2), st)
      | None \<Rightarrow>
          (let body = dispatch W ctx v meta fs
           in case complete i body st of
                Inl e \<Rightarrow> (Inl e, st)
              | Inr st' \<Rightarrow> (Inr body, st')))"

text \<open>
  A node that was fully visited earlier and is met again is referred to by its name; the
  first time this happens the name is reserved and the fragment the node has is registered
  under it.
\<close>

definition reuse ::
  "('m, 'f) Walker \<Rightarrow> 'm SchemaGraph \<Rightarrow> Identity list \<Rightarrow> Identity \<Rightarrow> 'f \<Rightarrow> 'f Resolver \<Rightarrow>
     ('f WalkError + 'f) \<times> 'f Resolver" where
  "reuse W g up i body st =
     (case map_of (names st) i of
        Some n \<Rightarrow> (Inr (reference W n), st)
      | None \<Rightarrow>
          (case reserve W g up i st of
             (n, st') \<Rightarrow>
               (case register n body st' of
                  Inl e \<Rightarrow> (Inl e, st)
                | Inr st'' \<Rightarrow> (Inr (reference W n), st''))))"

text \<open>
  Putting a node of the graph in flight that was not leaves fewer nodes out of flight;
  the graph is finite, which is why the walk below terminates.
\<close>

lemma in_flight_measure:
  assumes "map_of g i = Some x" and "\<not> isInFlight stack i"
  shows "card (fst ` set g - insert i (set stack)) < card (fst ` set g - set stack)"
proof -
  have "i \<in> fst ` set g"
    using assms(1) by (metis map_of_SomeD fst_conv image_eqI)
  moreover have "i \<notin> set stack"
    using assms(2) by (simp add: isInFlight_def)
  ultimately have "fst ` set g - insert i (set stack) \<subset> fst ` set g - set stack"
    by auto
  then show ?thesis
    by (intro psubset_card_mono) auto
qed

text \<open>
  Modelled from the spec: \<open>render\<close>, depth first and bottom up. A node in flight is not
  descended into again: the walk reserves its name and returns a reference (or fails, when
  the cycle passes through no boundary). A node fully visited earlier is not rendered
  again: the walk returns a reference to its name. Any other node is rendered from the
  fragments of its children, walked with the node in flight.
\<close>

function render ::
    "('m, 'f) Walker \<Rightarrow> 'm SchemaGraph \<Rightarrow> Identity list \<Rightarrow> Identity \<Rightarrow> 'f Resolver \<Rightarrow>
       ('f WalkError + 'f) \<times> 'f Resolver"
  and render_children ::
    "('m, 'f) Walker \<Rightarrow> 'm SchemaGraph \<Rightarrow> Identity list \<Rightarrow> Identity list \<Rightarrow> 'f Resolver \<Rightarrow>
       ('f WalkError + 'f list) \<times> 'f Resolver" where
  "render W g stack i st =
     (case map_of g i of
        None \<Rightarrow> (Inl (UnsupportedSchemaError (rev (i # stack))), st)
      | Some (v, meta) \<Rightarrow>
          if isInFlight stack i then
            (if cycle_through_boundary g stack i
             then (case reserve W g (i # stack) i st of (n, st') \<Rightarrow> (Inr (reference W n), st'))
             else (Inl (UnrenderableCycleError (rev (i # stack))), st))
          else
            (case map_of (visited st) i of
               Some body \<Rightarrow> reuse W g (i # stack) i body st
             | None \<Rightarrow>
                 if unsupported v then (Inl (UnsupportedSchemaError (rev (i # stack))), st)
                 else
                   (case render_children W g (i # stack) (children v) st of
                      (Inl e, st') \<Rightarrow> (Inl e, st')
                    | (Inr fs, st') \<Rightarrow>
                        finish W \<lparr>graph = g, walk_path = rev (i # stack)\<rparr> i v meta fs st')))"
| "render_children W g stack [] st = (Inr [], st)"
| "render_children W g stack (c # cs) st =
     (case render W g stack c st of
        (Inl e, st') \<Rightarrow> (Inl e, st')
      | (Inr f, st') \<Rightarrow>
          (case render_children W g stack cs st' of
             (Inl e, st'') \<Rightarrow> (Inl e, st'')
           | (Inr fs, st'') \<Rightarrow> (Inr (f # fs), st'')))"
  by pat_completeness auto

termination
  by (relation "inv_image (less_than <*lex*> less_than)
    (\<lambda>x. case x of
       Inl (W, g, stack, i, st) \<Rightarrow> (card (fst ` set g - set stack), 0)
     | Inr (W, g, stack, cs, st) \<Rightarrow> (card (fst ` set g - set stack), Suc (length cs)))")
    (auto intro: in_flight_measure)

text \<open>Modelled from the spec: the resolver state at the start of a run.\<close>

definition empty_resolver :: "'f Resolver" where
  "empty_resolver = \<lparr>names = [], components = [], visited = []\<rparr>"

section \<open>What a walk leaves behind, as a relation\<close>





definition seen :: "'f Resolver \<Rightarrow> Identity set" where
  "seen st = fst ` set (visited st)"

definition reserved :: "'f Resolver \<Rightarrow> Identity set" where
  "reserved st = fst ` set (names st)"



text \<open>
  For the proofs: the position of a visited node in the order of completion, the
  invariant of the walk, the growth of a resolver state, and the stacks that are paths
  of the graph.
\<close>

definition pos :: "'f Resolver \<Rightarrow> Identity \<Rightarrow> nat" where
  "pos st j = length (takeWhile (\<lambda>e. fst e \<noteq> j) (visited st))"


definition ext :: "'f Resolver \<Rightarrow> 'f Resolver \<Rightarrow> bool" where
  "ext st st' \<longleftrightarrow>
     (\<exists>xs. visited st' = visited st @ xs) \<and> (\<exists>ns. names st' = names st @ ns)"


text \<open>
  The occurrences of an identity in the schema under a root, counted on the graph: one for
  the root itself, and one for every time the identity is a child of a node that can be
  reached from the root. For the proofs, the identities a walk meets: the children it
  starts with and the children of the nodes it expands.
\<close>

definition children_of :: "'m SchemaGraph \<Rightarrow> Identity \<Rightarrow> Identity list" where
  "children_of g j = (case map_of g j of Some (v, m) \<Rightarrow> children v | None \<Rightarrow> [])"


definition met :: "'m SchemaGraph \<Rightarrow> Identity list \<Rightarrow> (Identity \<times> 'f) list \<Rightarrow> Identity list" where
  "met g cs xs = cs @ concat (map (children_of g) (map fst xs))"

section \<open>The walker of the document\<close>

text \<open>
  Modelled from the spec: the metadata attached to a node (description, example values,
  format hint), and the renderer table of the document (section 6): a primitive is
  rendered with its type, its format and its constraints; an object with its properties
  and the required names; an array with its items; a union as \<^verbatim>\<open>oneOf\<close>, an intersection as
  \<^verbatim>\<open>allOf\<close>; an enum with its literals in order; description and examples come last. The
  effect of the wrappers of a field is folded into the object: an optional field is left
  out of the required names, a nullable field and a field with a default carry
  \<^verbatim>\<open>nullable\<close> and the \<^verbatim>\<open>default\<close> literal in their property. A reference is \<^verbatim>\<open>$ref\<close>.
\<close>

record Meta =
  description :: "string option"
  format :: "string option"
  examples :: "Yaml list"

definition no_meta :: Meta where
  "no_meta = \<lparr>description = None, format = None, examples = []\<rparr>"

definition described :: "Meta \<Rightarrow> (string \<times> Yaml) list" where
  "described m =
     (case description m of Some d \<Rightarrow> [(''description'', Str d)] | None \<Rightarrow> []) @
     (case examples m of
        [] \<Rightarrow> []
      | [e] \<Rightarrow> [(''example'', e)]
      | es \<Rightarrow> [(''examples'', Seq es)])"

definition formatted :: "Meta \<Rightarrow> (string \<times> Yaml) list" where
  "formatted m = (case format m of Some f \<Rightarrow> [(''format'', Str f)] | None \<Rightarrow> [])"

definition wrappers_of :: "'m SchemaGraph \<Rightarrow> Identity \<Rightarrow> SchemaNode list" where
  "wrappers_of g c = filter wrapper (unwrap g (length g) c)"

fun is_optional :: "SchemaNode \<Rightarrow> bool" where
  "is_optional (Optional inner) = True"
| "is_optional _ = False"

fun effect :: "SchemaNode \<Rightarrow> (string \<times> Yaml) list" where
  "effect (Nullable inner) = [(''nullable'', Bool True)]"
| "effect (Default inner v) = [(''default'', v)]"
| "effect _ = []"

fun with_entries :: "Yaml \<Rightarrow> (string \<times> Yaml) list \<Rightarrow> Yaml" where
  "with_entries (Map entries) xs = Map (entries @ xs)"
| "with_entries y xs = y"

definition property :: "'m SchemaGraph \<Rightarrow> (string \<times> Identity) \<times> Yaml \<Rightarrow> string \<times> Yaml" where
  "property g member =
     (case member of ((n, c), f) \<Rightarrow> (n, with_entries f (concat (map effect (wrappers_of g c)))))"

definition required_names :: "'m SchemaGraph \<Rightarrow> (string \<times> Identity) list \<Rightarrow> string list \<Rightarrow> string list" where
  "required_names g members required =
     filter (\<lambda>n. case map_of members n of
                    Some c \<Rightarrow> \<not> list_ex is_optional (wrappers_of g c)
                  | None \<Rightarrow> True) required"

fun is_string :: "Yaml \<Rightarrow> bool" where
  "is_string (Str s) = True"
| "is_string _ = False"

fun is_number :: "Yaml \<Rightarrow> bool" where
  "is_number (Num n) = True"
| "is_number _ = False"

definition literal_type :: "Yaml list \<Rightarrow> (string \<times> Yaml) list" where
  "literal_type literals =
     (if list_all is_string literals then [(''type'', Str ''string'')]
      else if list_all is_number literals then [(''type'', Str ''number'')]
      else [])"

fun document_renderer :: "Meta Context \<Rightarrow> SchemaNode \<Rightarrow> Meta \<Rightarrow> Yaml list \<Rightarrow> Yaml" where
  "document_renderer ctx (Primitive k constraints) meta fs =
     Map ((''type'', Str k) # formatted meta @ constraints @ described meta)"
| "document_renderer ctx (Object members required) meta fs =
     Map ([(''type'', Str ''object''),
           (''properties'', Map (map (property (graph ctx)) (zip members fs)))] @
          (case required_names (graph ctx) members required of
             [] \<Rightarrow> []
           | present \<Rightarrow> [(''required'', Seq (map Str present))]) @
          described meta)"
| "document_renderer ctx (Array element constraints) meta fs =
     Map ((''type'', Str ''array'') # map (\<lambda>f. (''items'', f)) fs @ constraints @ described meta)"
| "document_renderer ctx (Union' options) meta fs = Map ((''oneOf'', Seq fs) # described meta)"
| "document_renderer ctx (Intersection parts) meta fs = Map ((''allOf'', Seq fs) # described meta)"
| "document_renderer ctx (Enum literals) meta fs =
     Map (literal_type literals @ [(''enum'', Seq literals)] @ described meta)"
| "document_renderer ctx v meta fs = (case fs of [f] \<Rightarrow> f | _ \<Rightarrow> Map [])"

definition document_walker ::
  "(string \<Rightarrow> nat \<Rightarrow> Identity \<Rightarrow> string) \<Rightarrow> string \<Rightarrow> (Meta, Yaml) Walker" where
  "document_walker generator endpoint =
     \<lparr>renderer = document_renderer,
      reference = (\<lambda>n. Map [(''$ref'', Str (schema_ref n))]),
      naming = generator,
      origin = endpoint\<rparr>"

text \<open>
  Generators of names: the one that reproduces the name in the example documentation,
  whatever hint and counter it is given, and one that takes the hint as the name. And
  three schema graphs: the recursive schema of the example API, an array of objects with
  a title and features that are this array again; a schema in which an object and its
  member refer to each other and the root has both as members; and a schema with a member
  used twice.
\<close>

definition documented_name :: "string \<Rightarrow> nat \<Rightarrow> Identity \<Rightarrow> string" where
  "documented_name h k i = ''2048581c137c5b2130eb860e3ae37da196dfc25b''"

definition hint_name :: "string \<Rightarrow> nat \<Rightarrow> Identity \<Rightarrow> string" where
  "hint_name h k i = h"



definition shared_graph :: "Meta SchemaGraph" where
  "shared_graph =
     [(0, Object [(''a'', 1), (''b'', 1)] [''a'', ''b''], no_meta),
      (1, Primitive ''string'' [], no_meta)]"

section \<open>The document assembler\<close>

text \<open>
  Modelled from the spec: the document assembler (section 4.3) is not among the sources;
  only the document it produced is. An endpoint, as the assembler reads it (section 3):
  the input schema, the positive outcomes and the negative outcome, each a schema with a
  status code and the declared MIME types, and the MIME types of the request body. The
  schemas are identities of one schema graph.
\<close>

record Outcome =
  outcome_schema :: Identity
  status_code :: string
  mime_types :: "string list"

record Depiction =
  input_schema :: Identity
  positive_outcomes :: "Outcome list"
  negative_outcome :: Outcome
  request_mime_types :: "string list"

text \<open>
  Modelled from the spec: a path template has named parameters, written \<^verbatim>\<open>:name\<close> in the
  routing and \<^verbatim>\<open>{name}\<close> in the document. The operation id is derived from the method and
  the path: the method and the segments of the path, letters and digits only, each with a
  capital initial. A top-level field of the input is a path parameter when the path names
  it, else a query parameter when the method has no body, else a field of the request
  body.
\<close>

fun split_at :: "char \<Rightarrow> string \<Rightarrow> string list" where
  "split_at sep [] = [[]]"
| "split_at sep (c # cs) =
     (case split_at sep cs of
        w # ws \<Rightarrow> if c = sep then [] # w # ws else (c # w) # ws
      | [] \<Rightarrow> [[c]])"

definition path_parameters :: "string \<Rightarrow> string list" where
  "path_parameters path =
     map tl (filter (\<lambda>segment. starts_with segment '':'') (split_at CHR ''/'' path))"

definition document_path :: "string \<Rightarrow> string" where
  "document_path path =
     join ''/'' (map (\<lambda>segment. if starts_with segment '':'' then ''{'' @ tl segment @ ''}''
                                  else segment)
                     (split_at CHR ''/'' path))"

definition alphanumeric :: "char \<Rightarrow> bool" where
  "alphanumeric c =
     (c \<in> set ''abcdefghijklmnopqrstuvwxyzABCDEFGHIJKLMNOPQRSTUVWXYZ0123456789'')"

definition capitalised :: "string \<Rightarrow> string" where
  "capitalised s = toUpperCase (take 1 s) @ drop 1 s"

definition operation_id :: "Method \<Rightarrow> string \<Rightarrow> string" where
  "operation_id method path =
     concat (map capitalised
       (method_literal method # map (filter alphanumeric) (split_at CHR ''/'' path)))"

definition allows_body :: "Method \<Rightarrow> bool" where
  "allows_body method = (method \<in> {Post, Put, Patch})"

definition source :: "Method \<Rightarrow> string \<Rightarrow> string \<Rightarrow> string" where
  "source method path field =
     (if field \<in> set (path_parameters path) then ''path''
      else if allows_body method then ''body''
      else ''query'')"

text \<open>
  Modelled from the spec: the parameters of an operation are rendered one by one from the
  top-level fields of the input object that are not fields of the body, each walked below
  the input (so that its hint is its own name); a parameter carries its name, its source,
  whether it is required, and its schema. The resolver state is threaded through the
  walks, and the first failure ends them.
\<close>

fun depict_parameters ::
  "(Meta, Yaml) Walker \<Rightarrow> Meta SchemaGraph \<Rightarrow> Identity \<Rightarrow> string list \<Rightarrow> Method \<Rightarrow> string \<Rightarrow>
     (string \<times> Identity) list \<Rightarrow> Yaml Resolver \<Rightarrow> (Yaml WalkError + Yaml list) \<times> Yaml Resolver" where
  "depict_parameters W g input required method path [] st = (Inr [], st)"
| "depict_parameters W g input required method path ((field, c) # members) st =
     (if source method path field = ''body''
      then depict_parameters W g input required method path members st
      else
        (case render W g [input] c st of
           (Inl e, st') \<Rightarrow> (Inl e, st')
         | (Inr f, st') \<Rightarrow>
             (case depict_parameters W g input required method path members st' of
                (Inl e, st'') \<Rightarrow> (Inl e, st'')
              | (Inr ps, st'') \<Rightarrow>
                  (Inr (Map [(''name'', Str field),
                             (''in'', Str (source method path field)),
                             (''required'',
                              Bool (field \<in> set required \<or> source method path field = ''path'')),
                             (''schema'', f)] # ps),
                   st''))))"

text \<open>
  Modelled from the spec: the request body is rendered as the remaining fields of the
  input, when the method allows a body: an object of the fields that are no parameters
  (or the whole input, when it is no object), under each MIME type of the request.
\<close>

definition content :: "string list \<Rightarrow> Yaml \<Rightarrow> Yaml" where
  "content mimes f = Map [(''content'', Map (map (\<lambda>mime. (mime, Map [(''schema'', f)])) mimes))]"

definition depict_body ::
  "(Meta, Yaml) Walker \<Rightarrow> Meta SchemaGraph \<Rightarrow> Depiction \<Rightarrow> Method \<Rightarrow> string \<Rightarrow> Yaml Resolver \<Rightarrow>
     (Yaml WalkError + Yaml list) \<times> Yaml Resolver" where
  "depict_body W g e method path st =
     (if \<not> allows_body method then (Inr [], st)
      else
        (case map_of g (input_schema e) of
           Some (Object members required, meta) \<Rightarrow>
             (let fields = filter (\<lambda>(field, c). source method path field = ''body'') members
              in case render_children W g [input_schema e] (map snd fields) st of
                   (Inl err, st') \<Rightarrow> (Inl err, st')
                 | (Inr fs, st') \<Rightarrow>
                     (Inr [content (request_mime_types e)
                             (renderer W \<lparr>graph = g, walk_path = [input_schema e]\<rparr>
                                (Object fields (filter (\<lambda>n. n \<in> fst ` set fields) required))
                                meta fs)],
                      st'))
         | _ \<Rightarrow>
             (case render W g [] (input_schema e) st of
                (Inl err, st') \<Rightarrow> (Inl err, st')
              | (Inr f, st') \<Rightarrow> (Inr [content (request_mime_types e) f], st'))))"

text \<open>
  Modelled from the spec: each outcome schema is rendered as a response fragment, keyed by
  its status code and its MIME types.
\<close>

fun depict_responses ::
  "(Meta, Yaml) Walker \<Rightarrow> Meta SchemaGraph \<Rightarrow> Outcome list \<Rightarrow> Yaml Resolver \<Rightarrow>
     (Yaml WalkError + (string \<times> Yaml) list) \<times> Yaml Resolver" where
  "depict_responses W g [] st = (Inr [], st)"
| "depict_responses W g (outcome # outcomes) st =
     (case render W g [] (outcome_schema outcome) st of
        (Inl e, st') \<Rightarrow> (Inl e, st')
      | (Inr f, st') \<Rightarrow>
          (case depict_responses W g outcomes st' of
             (Inl e, st'') \<Rightarrow> (Inl e, st'')
           | (Inr rs, st'') \<Rightarrow>
               (Inr ((status_code outcome, content (mime_types outcome) f) # rs), st'')))"

text \<open>
  Modelled from the spec: the operation of a route entry: its id, its responses, its
  parameters (when there are any) and its request body (when there is one). The walks of
  one operation share the walker of the endpoint, whose name is the operation id. What is
  copied from the metadata of the endpoint (summary, description, tags, security) is left
  out.
\<close>

definition depict_operation ::
  "(string \<Rightarrow> nat \<Rightarrow> Identity \<Rightarrow> string) \<Rightarrow> Meta SchemaGraph \<Rightarrow> Depiction \<Rightarrow> string \<Rightarrow> Method \<Rightarrow>
     Yaml Resolver \<Rightarrow> (Yaml WalkError + Yaml) \<times> Yaml Resolver" where
  "depict_operation generator g e path method st =
     (let W = document_walker generator (operation_id method path);
          (members, required) =
            (case map_of g (input_schema e) of
               Some (Object ms rq, meta) \<Rightarrow> (ms, required_names g ms rq)
             | _ \<Rightarrow> ([], []))
      in case depict_parameters W g (input_schema e) required method path members st of
           (Inl err, st1) \<Rightarrow> (Inl err, st1)
         | (Inr ps, st1) \<Rightarrow>
             (case depict_body W g e method path st1 of
                (Inl err, st2) \<Rightarrow> (Inl err, st2)
              | (Inr body, st2) \<Rightarrow>
                  (case depict_responses W g (positive_outcomes e @ [negative_outcome e]) st2 of
                     (Inl err, st3) \<Rightarrow> (Inl err, st3)
                   | (Inr rs, st3) \<Rightarrow>
                       (Inr (Map ([(''operationId'', Str (operation_id method path)),
                                   (''responses'', Map rs)] @
                                  (if ps = [] then [] else [(''parameters'', Seq ps)]) @
                                  map (\<lambda>b. (''requestBody'', b)) body)),
                        st3))))"

text \<open>
  Modelled from the spec: \<open>assemble\<close>. The assembler is a visitor of the routing
  traversal: it keeps the operations depicted so far, the resolver state of the run, and
  the failure of a walk, after which it depicts nothing more. The document maps each
  path to its methods and their operations and lists the components the resolver
  registered. A routing conflict, a failed walk and two operations of the same id are
  fatal. The metadata of the API (info, servers, tags, security schemes) is left out.
\<close>

record Assembly =
  operations :: "(string \<times> Method \<times> Yaml) list"
  resolver :: "Yaml Resolver"
  failure :: "Yaml WalkError option"

datatype 'e AssemblyError =
    Conflict "'e RoutingConflict"
  | Failure "Yaml WalkError"
  | OperationIdCollisionError string "(string \<times> Method) list"

definition depict ::
  "(string \<Rightarrow> nat \<Rightarrow> Identity \<Rightarrow> string) \<Rightarrow> Meta SchemaGraph \<Rightarrow> ('e \<Rightarrow> Depiction) \<Rightarrow>
     'e \<Rightarrow> string \<Rightarrow> Method \<Rightarrow> Assembly \<Rightarrow> Assembly" where
  "depict generator g view endpoint path method assembly =
     (case failure assembly of
        Some err \<Rightarrow> assembly
      | None \<Rightarrow>
          (case depict_operation generator g (view endpoint) path method (resolver assembly) of
             (Inl err, st) \<Rightarrow> assembly\<lparr>failure := Some err\<rparr>
           | (Inr operation, st) \<Rightarrow>
               assembly\<lparr>operations := operations assembly @ [(path, method, operation)],
                        resolver := st\<rparr>))"

definition colliding_id :: "(string \<times> Method \<times> Yaml) list \<Rightarrow> string option" where
  "colliding_id ops =
     (let ids = map (\<lambda>(path, method, operation). operation_id method path) ops
      in find (\<lambda>i. 1 < count_list ids i) ids)"

definition paths_of :: "(string \<times> Method \<times> Yaml) list \<Rightarrow> Yaml" where
  "paths_of ops =
     Map (map (\<lambda>path.
                 (document_path path,
                  Map (map (\<lambda>(p, method, operation). (method_literal method, operation))
                           (filter (\<lambda>(p, method, operation). p = path) ops))))
              (remdups (map fst ops)))"

definition assemble ::
  "(string \<Rightarrow> nat \<Rightarrow> Identity \<Rightarrow> string) \<Rightarrow> Meta SchemaGraph \<Rightarrow> ('e \<Rightarrow> Depiction) \<Rightarrow>
     ('e \<times> string \<times> Method) list \<Rightarrow> 'e AssemblyError + Yaml" where
  "assemble generator g view routing =
     (case routingCycle routing (depict generator g view)
             \<lparr>operations = [], resolver = empty_resolver, failure = None\<rparr> of
        (Inl conflict, assembly) \<Rightarrow> Inl (Conflict conflict)
      | (Inr finished, assembly) \<Rightarrow>
          (case failure assembly of
             Some err \<Rightarrow> Inl (Failure err)
           | None \<Rightarrow>
               (case colliding_id (operations assembly) of
                  Some i \<Rightarrow>
                    Inl (OperationIdCollisionError i
                           (map (\<lambda>(path, method, operation). (path, method))
                              (filter (\<lambda>(path, method, operation). operation_id method path = i)
                                 (operations assembly))))
                | None \<Rightarrow>
                    Inr (Map [(''paths'', paths_of (operations assembly)),
                              (''components'',
                               Map [(''schemas'', Map (components (resolver assembly)))])]))))"

text \<open>
  Two endpoints on \<^verbatim>\<open>GET /v1/user/retrieve\<close>. The first is the endpoint of the scenario of
  the specification: the input is an object with the string \<^verbatim>\<open>id\<close> matching the pattern
  \<^verbatim>\<open>\d+\<close>, the success is \<^verbatim>\<open>{status: "success", data: {name: string}}\<close>, the failure is
  \<^verbatim>\<open>{status: "error", error: {message: string}}\<close>. The second is the endpoint of the example
  API as its documentation shows it: the \<^verbatim>\<open>id\<close> has a description, and the data has an
  integer \<^verbatim>\<open>id\<close>, a \<^verbatim>\<open>name\<close> and the recursive \<^verbatim>\<open>features\<close>.
\<close>

definition scenario_graph :: "Meta SchemaGraph" where
  "scenario_graph =
     [(0, Object [(''id'', 1)] [''id''], no_meta),
      (1, Primitive ''string'' [(''pattern'', Str ([CHR 0x5C] @ ''d+''))], no_meta),
      (2, Object [(''status'', 3), (''data'', 4)] [''status'', ''data''], no_meta),
      (3, Enum [Str ''success''], no_meta),
      (4, Object [(''name'', 5)] [''name''], no_meta),
      (5, Primitive ''string'' [], no_meta),
      (6, Object [(''status'', 7), (''error'', 8)] [''status'', ''error''], no_meta),
      (7, Enum [Str ''error''], no_meta),
      (8, Object [(''message'', 9)] [''message''], no_meta),
      (9, Primitive ''string'' [], no_meta)]"

definition json_endpoint :: Depiction where
  "json_endpoint =
     \<lparr>input_schema = 0,
      positive_outcomes =
        [\<lparr>outcome_schema = 2, status_code = ''200'', mime_types = [''application/json'']\<rparr>],
      negative_outcome =
        \<lparr>outcome_schema = 6, status_code = ''400'', mime_types = [''application/json'']\<rparr>,
      request_mime_types = [''application/json'']\<rparr>"

definition retrieve_graph :: "Meta SchemaGraph" where
  "retrieve_graph =
     [(0, Object [(''id'', 1)] [''id''], no_meta),
      (1, Primitive ''string'' [(''pattern'', Str (''/'' @ [CHR 0x5C] @ ''d+/''))],
       no_meta\<lparr>description := Some ''a numeric string containing the id of the user''\<rparr>),
      (2, Object [(''status'', 3), (''data'', 4)] [''status'', ''data''], no_meta),
      (3, Enum [Str ''success''], no_meta),
      (4, Object [(''id'', 5), (''name'', 10), (''features'', 11)]
            [''id'', ''name'', ''features''], no_meta),
      (5, Primitive ''integer''
            [(''minimum'', Num 0), (''exclusiveMinimum'', Bool False),
             (''maximum'', Num 9007199254740991), (''exclusiveMaximum'', Bool False)],
       no_meta\<lparr>format := Some ''int64''\<rparr>),
      (6, Object [(''status'', 7), (''error'', 8)] [''status'', ''error''], no_meta),
      (7, Enum [Str ''error''], no_meta),
      (8, Object [(''message'', 9)] [''message''], no_meta),
      (9, Primitive ''string'' [], no_meta),
      (10, Primitive ''string'' [], no_meta),
      (11, Array 12 [], no_meta),
      (12, Object [(''title'', 13), (''features'', 11)] [''title'', ''features''], no_meta),
      (13, Primitive ''string'' [], no_meta)]"

section \<open>Properties of errors.ts\<close>

lemma toUpperCase_method_literal:
  "toUpperCase (method_literal m) =
     (case m of Get \<Rightarrow> ''GET'' | Post \<Rightarrow> ''POST'' | Put \<Rightarrow> ''PUT''
      | Delete \<Rightarrow> ''DELETE'' | Patch \<Rightarrow> ''PATCH'' | Options \<Rightarrow> ''OPTIONS'')"
  by (cases m; simp; code_simp)

text \<open>
  Claim C10. A \<^verbatim>\<open>DocumentationError\<close> built from a message, a method, a path and the
  \<^verbatim>\<open>isResponse\<close> flag is named \<^verbatim>\<open>DocumentationError\<close>; its message is the given message, a
  newline, and the sentence "Caused by response schema of an Endpoint assigned to METHOD
  method of PATH path." when the flag is set, the same sentence with "input" in place of
  "response" when it is not, where METHOD is the method literal in upper case.
\<close>

theorem DocumentationError_message:
  "name (DocumentationError msg m p r) = ''DocumentationError'' \<and>
   (r \<longrightarrow> message (DocumentationError msg m p r) =
      msg @ [CHR 0x0A] @ ''Caused by response schema of an Endpoint assigned to '' @
      (case m of Get \<Rightarrow> ''GET'' | Post \<Rightarrow> ''POST'' | Put \<Rightarrow> ''PUT''
       | Delete \<Rightarrow> ''DELETE'' | Patch \<Rightarrow> ''PATCH'' | Options \<Rightarrow> ''OPTIONS'') @
      '' method of '' @ p @ '' path.'') \<and>
   (\<not> r \<longrightarrow> message (DocumentationError msg m p r) =
      msg @ [CHR 0x0A] @ ''Caused by input schema of an Endpoint assigned to '' @
      (case m of Get \<Rightarrow> ''GET'' | Post \<Rightarrow> ''POST'' | Put \<Rightarrow> ''PUT''
       | Delete \<Rightarrow> ''DELETE'' | Patch \<Rightarrow> ''PATCH'' | Options \<Rightarrow> ''OPTIONS'') @
      '' method of '' @ p @ '' path.'')"
  by (simp add: DocumentationError_def toUpperCase_method_literal)

theorem DocumentationError_message_witness:
  "name (DocumentationError ''Zod type ZodVoid is unsupported.'' Get ''/v1/user/retrieve'' True)
     = ''DocumentationError'' \<and>
   message (DocumentationError ''Zod type ZodVoid is unsupported.'' Get ''/v1/user/retrieve'' True)
     = ''Zod type ZodVoid is unsupported.'' @ [CHR 0x0A] @
       ''Caused by response schema of an Endpoint assigned to GET method of /v1/user/retrieve path.'' \<and>
   message (DocumentationError ''Zod type ZodVoid is unsupported.'' Post ''/v1/user/:id'' False)
     = ''Zod type ZodVoid is unsupported.'' @ [CHR 0x0A] @
       ''Caused by input schema of an Endpoint assigned to POST method of /v1/user/:id path.''"
  using DocumentationError_message [of "''Zod type ZodVoid is unsupported.''" Get "''/v1/user/retrieve''" True]
        DocumentationError_message [of "''Zod type ZodVoid is unsupported.''" Post "''/v1/user/:id''" False]
  by simp
section \<open>Properties of client.ts\<close>

subsection \<open>The callback and the traversal\<close>

lemma run_callbacks_Nil [simp]: "run_callbacks z cid c [] = c"
  by (simp add: run_callbacks_def)

lemma run_callbacks_Cons [simp]:
  "run_callbacks z cid c ((e, p, m) # r) = run_callbacks z cid (endpointCb z cid e p m c) r"
  by (simp add: run_callbacks_def)

lemma agg_endpointCb:
  "agg (endpointCb z cid e p m c) = agg c @ entry_nodes z cid (e, p, m)"
  by (simp add: endpointCb_def entry_nodes_def Let_def zod_or_def createTypeAlias_def)

lemma paths_endpointCb:
  "paths (endpointCb z cid e p m c) = paths c @ (if m \<noteq> Options then [p] else [])"
  by (simp add: endpointCb_def Let_def)

lemma registry_endpointCb:
  "registry (endpointCb z cid e p m c) =
     (if m \<noteq> Options
      then registry_set (registry c) (methodPath m p)
             \<lparr>reg_in = cid p m ''input'', reg_out = cid p m ''response'',
              isJson = mimeJson \<in> set (getPositiveMimeTypes e)\<rparr>
      else registry c)"
  by (simp add: endpointCb_def Let_def)

lemma agg_run_callbacks:
  "agg (run_callbacks z cid c r) = agg c @ concat (map (entry_nodes z cid) r)"
  by (induction r arbitrary: c) (auto simp: agg_endpointCb)

lemma paths_run_callbacks:
  "paths (run_callbacks z cid c r) =
     paths c @ map (\<lambda>(e, p, m). p) (filter (\<lambda>(e, p, m). m \<noteq> Options) r)"
  by (induction r arbitrary: c) (auto simp: paths_endpointCb)

lemma methodPath_inject:
  "methodPath m p = methodPath m' p' \<longleftrightarrow> m = m' \<and> p = p'"
  by (cases m; cases m'; simp add: methodPath_def)

lemma is_registered_simp: "is_registered (e, p, m) \<longleftrightarrow> m \<noteq> Options"
  by (simp add: is_registered_def)

lemma registry_set_fresh:
  "k \<notin> fst ` set r \<Longrightarrow> registry_set r k v = r @ [(k, v)]"
  by (induction r) auto

lemma find_conflict_None:
  "find_conflict r = None \<longleftrightarrow> distinct (map route_key r)"
proof (induction r)
  case Nil
  then show ?case by simp
next
  case (Cons entry r)
  have "List.find (\<lambda>later. route_key later = route_key entry) r = None \<longleftrightarrow>
      route_key entry \<notin> route_key ` set r"
    unfolding find_None_iff image_iff by metis
  with Cons show ?case
    by (auto split: option.splits)
qed

lemma find_conflict_Some:
  "find_conflict r = Some (a, b) \<Longrightarrow>
   \<exists>i j. i < j \<and> j < length r \<and> r ! i = a \<and> r ! j = b \<and> route_key a = route_key b"
proof (induction r)
  case Nil
  then show ?case by simp
next
  case (Cons entry r)
  show ?case
  proof (cases "List.find (\<lambda>later. route_key later = route_key entry) r")
    case None
    with Cons.prems have "find_conflict r = Some (a, b)" by simp
    then obtain i j where "i < j" "j < length r" "r ! i = a" "r ! j = b" "route_key a = route_key b"
      using Cons.IH by blast
    then have "Suc i < Suc j \<and> Suc j < length (entry # r) \<and> (entry # r) ! Suc i = a \<and>
        (entry # r) ! Suc j = b \<and> route_key a = route_key b"
      by simp
    then show ?thesis by blast
  next
    case (Some later)
    with Cons.prems have ab: "a = entry" "b = later" by simp_all
    from Some obtain j where "j < length r" "r ! j = later" "route_key later = route_key entry"
      by (auto simp: find_Some_iff)
    then have "0 < Suc j \<and> Suc j < length (entry # r) \<and> (entry # r) ! 0 = a \<and>
        (entry # r) ! Suc j = b \<and> route_key a = route_key b"
      using ab by simp
    then show ?thesis by blast
  qed
qed

lemma fst_registered: "fst (registered z cid (e, p, m)) = methodPath m p"
  by (simp add: registered_def)

lemma entry_key_inject: "entry_key x = entry_key y \<longleftrightarrow> route_key x = route_key y"
  by (cases x; cases y) (simp add: entry_key_def route_key_def methodPath_inject)

lemma disjoint_step: "e \<notin> K \<Longrightarrow> A' \<subseteq> insert e A \<Longrightarrow> A \<inter> K = {} \<Longrightarrow> A' \<inter> K = {}"
  by blast

lemma registry_run_callbacks:
  "distinct (map route_key r) \<Longrightarrow>
   fst ` set (registry c) \<inter> entry_key ` set r = {} \<Longrightarrow>
   registry (run_callbacks z cid c r) =
     registry c @ map (registered z cid) (filter is_registered r)"
proof (induction r arbitrary: c)
  case Nil
  then show ?case by simp
next
  case (Cons entry r)
  obtain e p m where entry: "entry = (e, p, m)" by (cases entry)
  let ?c = "endpointCb z cid e p m c"
  have k: "entry_key entry = methodPath m p" by (simp add: entry entry_key_def)
  have fresh: "methodPath m p \<notin> fst ` set (registry c)"
    using Cons.prems(2) k by auto
  have "route_key entry \<notin> route_key ` set r"
    using Cons.prems(1) by simp
  then have later: "entry_key entry \<notin> entry_key ` set r"
    by (auto simp: entry_key_inject)
  have reg: "registry ?c =
      registry c @ (if m \<noteq> Options then [registered z cid (e, p, m)] else [])"
    using fresh by (simp add: registry_endpointCb registry_set_fresh registered_def)
  have keys: "fst ` set (registry ?c) \<subseteq> insert (entry_key entry) (fst ` set (registry c))"
    by (auto simp: reg fst_registered k)
  have "fst ` set (registry c) \<inter> entry_key ` set r = {}"
    using Cons.prems(2) by auto
  with later keys
  have disj: "fst ` set (registry ?c) \<inter> entry_key ` set r = {}"
    by (rule disjoint_step)
  have "distinct (map route_key r)"
    using Cons.prems(1) by simp
  then have "registry (run_callbacks z cid ?c r) =
      registry ?c @ map (registered z cid) (filter is_registered r)"
    using disj by (rule Cons.IH)
  then show ?case
    by (simp add: entry reg is_registered_simp)
qed

lemma endpoint_node_entry_nodes: "nd \<in> set (entry_nodes z cid entry) \<Longrightarrow> endpoint_node nd"
  by (cases entry) (auto simp: entry_nodes_def endpoint_node_def)

lemma exported_alias_skip:
  "(\<And>nd. nd \<in> set xs \<Longrightarrow> endpoint_node nd) \<Longrightarrow> exported_alias n (xs @ ys) = exported_alias n ys"
proof (induction xs)
  case Nil
  then show ?case by simp
next
  case (Cons x xs)
  have "endpoint_node x" using Cons.prems by simp
  then have "exported_alias n (x # xs @ ys) = exported_alias n (xs @ ys)"
    by (cases x) (auto simp: endpoint_node_def)
  then show ?case using Cons by simp
qed

lemma interface_members_skip:
  "(\<And>nd. nd \<in> set xs \<Longrightarrow> endpoint_node nd) \<Longrightarrow> interface_members n (xs @ ys) = interface_members n ys"
proof (induction xs)
  case Nil
  then show ?case by simp
next
  case (Cons x xs)
  have "endpoint_node x" using Cons.prems by simp
  then have "interface_members n (x # xs @ ys) = interface_members n (xs @ ys)"
    by (cases x) (auto simp: endpoint_node_def)
  then show ?case using Cons by simp
qed

lemma const_initializer_skip:
  "(\<And>nd. nd \<in> set xs \<Longrightarrow> endpoint_node nd) \<Longrightarrow> const_initializer n (xs @ ys) = const_initializer n ys"
proof (induction xs)
  case Nil
  then show ?case by simp
next
  case (Cons x xs)
  have "endpoint_node x" using Cons.prems by simp
  then have "const_initializer n (x # xs @ ys) = const_initializer n (xs @ ys)"
    by (cases x) (auto simp: endpoint_node_def)
  then show ?case using Cons by simp
qed

lemma Client_constructor_Inr:
  "Client_constructor z cid r = Inr c \<Longrightarrow>
     distinct (map route_key r) \<and>
     c = (run_callbacks z cid Client_init r)
           \<lparr>agg := agg (run_callbacks z cid Client_init r) @
                    aggregates (run_callbacks z cid Client_init r)\<rparr>"
  by (auto simp: Client_constructor_def routingCycle_def run_callbacks_def aggregates_def
        find_conflict_None [symmetric] split: option.splits prod.splits sum.splits)

lemma Client_constructor_distinct:
  "distinct (map route_key r) \<Longrightarrow>
   Client_constructor z cid r =
     Inr ((run_callbacks z cid Client_init r)
           \<lparr>agg := agg (run_callbacks z cid Client_init r) @
                    aggregates (run_callbacks z cid Client_init r)\<rparr>)"
  by (simp add: Client_constructor_def routingCycle_def run_callbacks_def aggregates_def
        find_conflict_None [symmetric])

lemma Client_constructor_agg:
  assumes "Client_constructor z cid r = Inr c"
  shows "agg c = concat (map (entry_nodes z cid) r) @ aggregates (run_callbacks z cid Client_init r)"
  using Client_constructor_Inr [OF assms] by (simp add: agg_run_callbacks Client_init_def)

lemma Client_constructor_paths:
  assumes "Client_constructor z cid r = Inr c"
  shows "paths c = map (\<lambda>(e, p, m). p) (filter is_registered r)"
proof -
  have "is_registered = (\<lambda>(e, p, m). m \<noteq> Options)" by (auto simp: is_registered_def)
  then show ?thesis
  using Client_constructor_Inr [OF assms] by (simp add: paths_run_callbacks Client_init_def)
qed

lemma Client_constructor_registry:
  assumes "Client_constructor z cid r = Inr c"
  shows "registry c = map (registered z cid) (filter is_registered r)"
  using Client_constructor_Inr [OF assms] by (simp add: registry_run_callbacks Client_init_def)

lemma example_routing_distinct: "distinct (map route_key example_routing)"
  by (simp add: example_routing_def route_key_def)

lemma aggregates_Method:
  "exported_alias ''Method'' (aggregates this) =
     Some (UnionTypeNode (map LiteralTypeNode [''get'', ''post'', ''put'', ''delete'', ''patch'']))"
  by (simp add: aggregates_def pathNode_def methodNode_def exportModifier_def)

lemma aggregates_Path:
  "exported_alias ''Path'' (aggregates this) = Some (UnionTypeNode (map LiteralTypeNode (paths this)))"
  by (simp add: aggregates_def pathNode_def exportModifier_def)

lemma literal_texts_map [simp]: "literal_texts (map LiteralTypeNode xs) = xs"
  by (induction xs) auto

lemma entry_nodes_all: "nd \<in> set (concat (map (entry_nodes z cid) r)) \<Longrightarrow> endpoint_node nd"
  by (auto dest: endpoint_node_entry_nodes)

lemma Client_constructor_Method_union:
  assumes "Client_constructor z cid routing = Inr c"
  shows "union_of_alias ''Method'' c = [''get'', ''post'', ''put'', ''delete'', ''patch'']"
proof -
  have "exported_alias ''Method'' (agg c) =
      exported_alias ''Method'' (aggregates (run_callbacks z cid Client_init routing))"
    unfolding Client_constructor_agg [OF assms] by (rule exported_alias_skip) (rule entry_nodes_all)
  then show ?thesis
    by (simp add: union_of_alias_def aggregates_Method)
qed

subsection \<open>The Method union\<close>

text \<open>
  Claim C2, as amended. The generated \<^verbatim>\<open>Method\<close> alias does not depend on the routing: for
  every routing whose client is generated, its union consists of the five literals
  \<^verbatim>\<open>get\<close>, \<^verbatim>\<open>post\<close>, \<^verbatim>\<open>put\<close>, \<^verbatim>\<open>delete\<close>, \<^verbatim>\<open>patch\<close>, in this order, whether or not a route
  uses them.
\<close>

theorem Method_union_fixed:
  assumes "Client_constructor zodToTs cleanId routing = Inr c"
  shows "union_of_alias ''Method'' c = [''get'', ''post'', ''put'', ''delete'', ''patch'']"
  using assms by (rule Client_constructor_Method_union)

theorem Method_union_fixed_witness:
  "(case Client_constructor example_zodToTs example_cleanId example_routing of
      Inr c \<Rightarrow> union_of_alias ''Method'' c = [''get'', ''post'', ''put'', ''delete'', ''patch'']
    | Inl err \<Rightarrow> False)"
proof -
  obtain c where c: "Client_constructor example_zodToTs example_cleanId example_routing = Inr c"
    by (simp add: Client_constructor_distinct example_routing_distinct)
  show ?thesis
    using Method_union_fixed [OF c] by (simp add: c)
qed

text \<open>
  The claim as stated (a literal is in the union if and only if a route is declared with
  that method) fails for a routing with a single \<^verbatim>\<open>get\<close> route: \<^verbatim>\<open>post\<close> is in the union and no
  route is declared with it.
\<close>

theorem Method_union_counterexample:
  "(case Client_constructor example_zodToTs example_cleanId [(retrieveUserEndpoint, ''/v1/user/retrieve'', Get)] of
      Inr c \<Rightarrow> ''post'' \<in> set (union_of_alias ''Method'' c)
    | Inl err \<Rightarrow> False) \<and>
   Post \<notin> (\<lambda>(e, p, m). m) ` set [(retrieveUserEndpoint, ''/v1/user/retrieve'', Get)]"
proof -
  obtain c where c: "Client_constructor example_zodToTs example_cleanId [(retrieveUserEndpoint, ''/v1/user/retrieve'', Get)] = Inr c"
    by (simp add: Client_constructor_distinct)
  have "union_of_alias ''Method'' c = [''get'', ''post'', ''put'', ''delete'', ''patch'']"
    using c by (rule Client_constructor_Method_union)
  then show ?thesis by (simp add: c)
qed

lemma find_conflict_distinct:
  assumes "\<not> distinct (map route_key routing)"
  obtains a b where "find_conflict routing = Some (a, b)"
  using assms find_conflict_None [of routing] by (cases "find_conflict routing") auto

lemma routingCycle_conflict:
  "find_conflict routing = Some (a, b) \<Longrightarrow>
   routingCycle routing visitor s = (Inl (RoutingConflictError a b), s)"
  by (simp add: routingCycle_def)

lemma routingCycle_distinct:
  "distinct (map route_key routing) \<Longrightarrow>
   routingCycle routing visitor s =
     (Inr (), foldl (\<lambda>s' (endpoint, path, method). visitor endpoint path method s') s routing)"
  by (simp add: routingCycle_def find_conflict_None [symmetric])

lemma entry_nodes_in_agg:
  assumes "Client_constructor z cid routing = Inr c" and "entry \<in> set routing"
  shows "set (entry_nodes z cid entry) \<subseteq> set (agg c)"
  using assms(2) unfolding Client_constructor_agg [OF assms(1)] by auto

subsection \<open>The response alias\<close>

text \<open>
  Claim C4. For every route entry of a routing whose client is generated, the artifact
  holds the response alias of the entry, and its type is the rendering of the positive
  response schema or-ed with the negative one. When the renderer turns a union schema into
  the union of the renderings of its options, as zod-to-ts does, the alias is the union
  type of the two outcome shapes, positive first: both are its members.
\<close>

theorem response_alias_is_union:
  assumes "Client_constructor zodToTs cleanId routing = Inr c"
    and "(endpoint, path, method) \<in> set routing"
  shows "createTypeAlias
           (node (zodToTs (zod_or (getPositiveResponseSchema endpoint)
                                  (getNegativeResponseSchema endpoint))
                    (cleanId path method ''response'') True))
           (cleanId path method ''response'') \<in> set (agg c) \<and>
         ((\<forall>options identifier.
             node (zodToTs (ZodUnion options) identifier True) =
               UnionTypeNode (map (\<lambda>option. node (zodToTs option identifier True)) options)) \<longrightarrow>
          TypeAliasDeclaration [] (cleanId path method ''response'')
            (UnionTypeNode
               [node (zodToTs (getPositiveResponseSchema endpoint) (cleanId path method ''response'') True),
                node (zodToTs (getNegativeResponseSchema endpoint) (cleanId path method ''response'') True)])
            \<in> set (agg c))"
proof -
  have "createTypeAlias
           (node (zodToTs (zod_or (getPositiveResponseSchema endpoint)
                                  (getNegativeResponseSchema endpoint))
                    (cleanId path method ''response'') True))
           (cleanId path method ''response'') \<in> set (entry_nodes zodToTs cleanId (endpoint, path, method))"
    by (simp add: entry_nodes_def createTypeAlias_def zod_or_def)
  then have mem: "createTypeAlias
           (node (zodToTs (zod_or (getPositiveResponseSchema endpoint)
                                  (getNegativeResponseSchema endpoint))
                    (cleanId path method ''response'') True))
           (cleanId path method ''response'') \<in> set (agg c)"
    using entry_nodes_in_agg [OF assms] by blast
  show ?thesis
  proof (intro conjI impI)
    show "createTypeAlias
           (node (zodToTs (zod_or (getPositiveResponseSchema endpoint)
                                  (getNegativeResponseSchema endpoint))
                    (cleanId path method ''response'') True))
           (cleanId path method ''response'') \<in> set (agg c)"
      by (rule mem)
  next
    assume "\<forall>options identifier.
             node (zodToTs (ZodUnion options) identifier True) =
               UnionTypeNode (map (\<lambda>option. node (zodToTs option identifier True)) options)"
    then have "node (zodToTs (zod_or (getPositiveResponseSchema endpoint)
                                  (getNegativeResponseSchema endpoint))
                    (cleanId path method ''response'') True) =
        UnionTypeNode
          [node (zodToTs (getPositiveResponseSchema endpoint) (cleanId path method ''response'') True),
           node (zodToTs (getNegativeResponseSchema endpoint) (cleanId path method ''response'') True)]"
      by (simp add: zod_or_def)
    with mem show "TypeAliasDeclaration [] (cleanId path method ''response'')
            (UnionTypeNode
               [node (zodToTs (getPositiveResponseSchema endpoint) (cleanId path method ''response'') True),
                node (zodToTs (getNegativeResponseSchema endpoint) (cleanId path method ''response'') True)])
            \<in> set (agg c)"
      by (simp add: createTypeAlias_def)
  qed
qed

theorem response_alias_is_union_witness:
  "(case Client_constructor example_zodToTs example_cleanId example_routing of
      Inr c \<Rightarrow>
        TypeAliasDeclaration [] ''get_v1_user_retrieve_response''
          (UnionTypeNode
             [TypeLiteralNode
                [(''status'', LiteralTypeNode ''success''),
                 (''data'', TypeLiteralNode [(''name'', KeywordTypeNode ''string'')])],
              TypeLiteralNode
                [(''status'', LiteralTypeNode ''error''),
                 (''error'', TypeLiteralNode [(''message'', KeywordTypeNode ''string'')])]])
          \<in> set (agg c)
    | Inl err \<Rightarrow> False)"
proof -
  obtain c where c: "Client_constructor example_zodToTs example_cleanId example_routing = Inr c"
    by (simp add: Client_constructor_distinct example_routing_distinct)
  have m: "(retrieveUserEndpoint, ''/v1/user/retrieve'', Get) \<in> set example_routing"
    by (simp add: example_routing_def)
  have u: "\<forall>options identifier.
             node (example_zodToTs (ZodUnion options) identifier True) =
               UnionTypeNode (map (\<lambda>option. node (example_zodToTs option identifier True)) options)"
    by (simp add: example_zodToTs_def)
  show ?thesis
    using response_alias_is_union [OF c m] u
    by (simp add: c example_zodToTs_def example_cleanId_def retrieveUserEndpoint_def)
qed

lemma distinct_entry_key:
  "distinct (map route_key r) \<Longrightarrow> distinct (map entry_key r)"
proof (induction r)
  case Nil
  then show ?case by simp
next
  case (Cons x r)
  have "entry_key x \<notin> entry_key ` set r"
  proof
    assume "entry_key x \<in> entry_key ` set r"
    then obtain y where "y \<in> set r" "entry_key x = entry_key y" by blast
    then have "route_key x \<in> route_key ` set r"
      by (auto simp: entry_key_inject)
    with Cons.prems show False by simp
  qed
  with Cons show ?case by simp
qed

lemma fst_registered': "fst (registered z cid entry) = entry_key entry"
  by (cases entry) (simp add: registered_def entry_key_def)

lemma keys_registered:
  "map fst (map (registered z cid) r) = map entry_key r"
  by (simp add: fst_registered')

lemma registry_get_registered:
  assumes "distinct (map route_key r)" and "entry \<in> set r" and "is_registered entry"
  shows "registry_get (map (registered z cid) (filter is_registered r)) (entry_key entry) =
           snd (registered z cid entry)"
proof -
  let ?R = "map (registered z cid) (filter is_registered r)"
  have "distinct (map entry_key (filter is_registered r))"
    using assms(1) by (intro distinct_map_filter distinct_entry_key)
  then have d: "distinct (map fst ?R)"
    by (simp only: keys_registered)
  have "registered z cid entry \<in> set ?R"
    using assms(2,3) by simp
  then have "(entry_key entry, snd (registered z cid entry)) \<in> set ?R"
    by (metis fst_registered' prod.collapse)
  with d have "map_of ?R (entry_key entry) = Some (snd (registered z cid entry))"
    by (rule map_of_is_SomeI)
  then show ?thesis
    by (simp add: registry_get_def)
qed

lemma quoted_inject [simp]: "quoted a = quoted b \<longleftrightarrow> a = b"
  by (simp add: quoted_def)

lemma Client_constructor_jsonEndpoints_keys:
  assumes "Client_constructor z cid r = Inr c"
  shows "jsonEndpoints_keys c =
           map quoted (filter (\<lambda>k. isJson (registry_get (registry c) k)) (Object_keys (registry c)))"
proof -
  let ?s = "run_callbacks z cid Client_init r"
  have reg: "registry c = registry ?s"
    using Client_constructor_Inr [OF assms] by simp
  have "const_initializer ''jsonEndpoints'' (agg c) =
      const_initializer ''jsonEndpoints'' (aggregates ?s)"
    unfolding Client_constructor_agg [OF assms] by (rule const_initializer_skip) (rule entry_nodes_all)
  also have "\<dots> = Some (ObjectLiteralExpression
        (map (\<lambda>k. (quoted k, TrueLiteral))
           (filter (\<lambda>k. isJson (registry_get (registry ?s) k)) (Object_keys (registry ?s)))))"
    by (simp add: aggregates_def pathNode_def methodNode_def methodPathNode_def inputNode_def
          responseNode_def jsonEndpointsNode_def)
  finally show ?thesis
    by (simp add: jsonEndpoints_keys_def reg comp_def)
qed

lemma Client_constructor_Input_keys:
  assumes "Client_constructor z cid r = Inr c"
  shows "interface_keys ''Input'' c = map quoted (Object_keys (registry c))"
proof -
  let ?s = "run_callbacks z cid Client_init r"
  have reg: "registry c = registry ?s"
    using Client_constructor_Inr [OF assms] by simp
  have "interface_members ''Input'' (agg c) = interface_members ''Input'' (aggregates ?s)"
    unfolding Client_constructor_agg [OF assms] by (rule interface_members_skip) (rule entry_nodes_all)
  also have "\<dots> = Some (map (\<lambda>k. makeQuotedProp k (reg_in (registry_get (registry ?s) k)))
            (Object_keys (registry ?s)))"
    by (simp add: aggregates_def pathNode_def methodNode_def methodPathNode_def inputNode_def)
  finally show ?thesis
    by (simp add: interface_keys_def reg comp_def makeQuotedProp_def)
qed

lemma Client_constructor_Response_keys:
  assumes "Client_constructor z cid r = Inr c"
  shows "interface_keys ''Response'' c = map quoted (Object_keys (registry c))"
proof -
  let ?s = "run_callbacks z cid Client_init r"
  have reg: "registry c = registry ?s"
    using Client_constructor_Inr [OF assms] by simp
  have "interface_members ''Response'' (agg c) = interface_members ''Response'' (aggregates ?s)"
    unfolding Client_constructor_agg [OF assms] by (rule interface_members_skip) (rule entry_nodes_all)
  also have "\<dots> = Some (map (\<lambda>k. makeQuotedProp k (reg_out (registry_get (registry ?s) k)))
            (Object_keys (registry ?s)))"
    by (simp add: aggregates_def pathNode_def methodNode_def methodPathNode_def inputNode_def
          responseNode_def)
  finally show ?thesis
    by (simp add: interface_keys_def reg comp_def makeQuotedProp_def)
qed

lemma Client_constructor_Path_union:
  assumes "Client_constructor z cid r = Inr c"
  shows "union_of_alias ''Path'' c = paths c"
proof -
  let ?s = "run_callbacks z cid Client_init r"
  have p: "paths c = paths ?s"
    using Client_constructor_Inr [OF assms] by simp
  have "exported_alias ''Path'' (agg c) = exported_alias ''Path'' (aggregates ?s)"
    unfolding Client_constructor_agg [OF assms] by (rule exported_alias_skip) (rule entry_nodes_all)
  then show ?thesis
    by (simp add: union_of_alias_def aggregates_Path p)
qed

lemma Client_constructor_keys:
  assumes "Client_constructor z cid r = Inr c"
  shows "Object_keys (registry c) = map entry_key (filter is_registered r)"
  by (simp only: Client_constructor_registry [OF assms] Object_keys_def keys_registered)

subsection \<open>The JSON endpoints\<close>

text \<open>
  Claim C5. For every route entry that the client registers (any method but \<^verbatim>\<open>options\<close>) in
  a routing whose client is generated, the quoted method+path key of the entry is a key of
  the \<^verbatim>\<open>jsonEndpoints\<close> object if and only if the positive MIME types of its endpoint include
  \<^verbatim>\<open>application/json\<close>.
\<close>

theorem jsonEndpoints_iff_mimeJson:
  assumes "Client_constructor zodToTs cleanId routing = Inr c"
    and "(endpoint, path, method) \<in> set routing"
    and "method \<noteq> Options"
  shows "quoted (methodPath method path) \<in> set (jsonEndpoints_keys c) \<longleftrightarrow>
           mimeJson \<in> set (getPositiveMimeTypes endpoint)"
proof -
  let ?entry = "(endpoint, path, method)"
  have d: "distinct (map route_key routing)"
    using Client_constructor_Inr [OF assms(1)] by simp
  have r: "is_registered ?entry"
    using assms(3) by (simp add: is_registered_simp)
  have k: "entry_key ?entry = methodPath method path"
    by (simp add: entry_key_def)
  have "registry_get (registry c) (entry_key ?entry) = snd (registered zodToTs cleanId ?entry)"
    unfolding Client_constructor_registry [OF assms(1)]
    using d assms(2) r by (rule registry_get_registered)
  then have j: "isJson (registry_get (registry c) (methodPath method path)) \<longleftrightarrow>
      mimeJson \<in> set (getPositiveMimeTypes endpoint)"
    by (simp add: k registered_def)
  have "entry_key ?entry \<in> set (Object_keys (registry c))"
    unfolding Client_constructor_keys [OF assms(1)] using assms(2) r by simp
  then have m: "methodPath method path \<in> set (Object_keys (registry c))"
    by (simp add: k)
  show ?thesis
    unfolding Client_constructor_jsonEndpoints_keys [OF assms(1)]
    using m j by (auto simp: image_iff)
qed

theorem jsonEndpoints_iff_mimeJson_witness:
  "(case Client_constructor example_zodToTs example_cleanId example_routing of
      Inr c \<Rightarrow>
        quoted ''get /v1/user/retrieve'' \<in> set (jsonEndpoints_keys c) \<and>
        quoted ''get /v1/avatar/send'' \<notin> set (jsonEndpoints_keys c)
    | Inl err \<Rightarrow> False)"
proof -
  obtain c where c: "Client_constructor example_zodToTs example_cleanId example_routing = Inr c"
    by (simp add: Client_constructor_distinct example_routing_distinct)
  have m1: "(retrieveUserEndpoint, ''/v1/user/retrieve'', Get) \<in> set example_routing"
    and m2: "(sendAvatarEndpoint, ''/v1/avatar/send'', Get) \<in> set example_routing"
    by (simp_all add: example_routing_def)
  have g: "Get \<noteq> Options" by simp
  show ?thesis
    using jsonEndpoints_iff_mimeJson [OF c m1 g] jsonEndpoints_iff_mimeJson [OF c m2 g]
    by (simp add: c methodPath_def mimeJson_def retrieveUserEndpoint_def sendAvatarEndpoint_def)
qed

subsection \<open>Endpoints of the options method\<close>

text \<open>
  Claim C9. For every routing whose client is generated and every entry of it with the
  method \<^verbatim>\<open>options\<close>: the input alias and the response alias of the entry are in the
  artifact; the \<^verbatim>\<open>Path\<close> union consists of the paths of the entries with another method, in
  order, so the entry adds nothing to it (its path is there only if an entry with another
  method has the same path); and its quoted method+path key is no key of the \<^verbatim>\<open>Input\<close>
  interface, of the \<^verbatim>\<open>Response\<close> interface or of \<^verbatim>\<open>jsonEndpoints\<close>.
\<close>

theorem options_endpoint_excluded:
  assumes "Client_constructor zodToTs cleanId routing = Inr c"
    and "(endpoint, path, Options) \<in> set routing"
  shows "createTypeAlias
           (node (zodToTs (getInputSchema endpoint) (cleanId path Options ''input'') True))
           (cleanId path Options ''input'') \<in> set (agg c) \<and>
         createTypeAlias
           (node (zodToTs (zod_or (getPositiveResponseSchema endpoint)
                                  (getNegativeResponseSchema endpoint))
                    (cleanId path Options ''response'') True))
           (cleanId path Options ''response'') \<in> set (agg c) \<and>
         union_of_alias ''Path'' c =
           map (\<lambda>(e, p, m). p) (filter (\<lambda>(e, p, m). m \<noteq> Options) routing) \<and>
         quoted (methodPath Options path) \<notin> set (interface_keys ''Input'' c) \<and>
         quoted (methodPath Options path) \<notin> set (interface_keys ''Response'' c) \<and>
         quoted (methodPath Options path) \<notin> set (jsonEndpoints_keys c)"
proof -
  let ?entry = "(endpoint, path, Options)"
  have sub: "set (entry_nodes zodToTs cleanId ?entry) \<subseteq> set (agg c)"
    using assms by (rule entry_nodes_in_agg)
  have a1: "createTypeAlias
           (node (zodToTs (getInputSchema endpoint) (cleanId path Options ''input'') True))
           (cleanId path Options ''input'') \<in> set (agg c)"
    using sub by (simp add: entry_nodes_def createTypeAlias_def)
  have a2: "createTypeAlias
           (node (zodToTs (zod_or (getPositiveResponseSchema endpoint)
                                  (getNegativeResponseSchema endpoint))
                    (cleanId path Options ''response'') True))
           (cleanId path Options ''response'') \<in> set (agg c)"
    using sub by (simp add: entry_nodes_def createTypeAlias_def zod_or_def)
  have "is_registered = (\<lambda>(e, p, m). m \<noteq> Options)"
    by (auto simp: is_registered_def)
  then have p: "union_of_alias ''Path'' c =
      map (\<lambda>(e, p, m). p) (filter (\<lambda>(e, p, m). m \<noteq> Options) routing)"
    using Client_constructor_Path_union [OF assms(1)] Client_constructor_paths [OF assms(1)] by simp
  have k: "methodPath Options path \<notin> set (Object_keys (registry c))"
  proof
    assume "methodPath Options path \<in> set (Object_keys (registry c))"
    then obtain entry where "is_registered entry" and "entry_key entry = methodPath Options path"
      unfolding Client_constructor_keys [OF assms(1)] by auto
    then show False
      by (cases entry) (simp add: is_registered_simp entry_key_def methodPath_inject)
  qed
  have k1: "quoted (methodPath Options path) \<notin> set (interface_keys ''Input'' c)"
    unfolding Client_constructor_Input_keys [OF assms(1)] using k by (auto simp: image_iff)
  have k2: "quoted (methodPath Options path) \<notin> set (interface_keys ''Response'' c)"
    unfolding Client_constructor_Response_keys [OF assms(1)] using k by (auto simp: image_iff)
  have k3: "quoted (methodPath Options path) \<notin> set (jsonEndpoints_keys c)"
    unfolding Client_constructor_jsonEndpoints_keys [OF assms(1)] using k by (auto simp: image_iff)
  from a1 a2 p k1 k2 k3 show ?thesis by blast
qed

theorem options_endpoint_excluded_witness:
  "(case Client_constructor example_zodToTs example_cleanId example_routing of
      Inr c \<Rightarrow>
        TypeAliasDeclaration [] ''options_v1_avatar_send_input''
          (TypeLiteralNode [(''userId'', KeywordTypeNode ''string'')]) \<in> set (agg c) \<and>
        TypeAliasDeclaration [] ''options_v1_avatar_send_response''
          (UnionTypeNode [KeywordTypeNode ''string'', KeywordTypeNode ''string'']) \<in> set (agg c) \<and>
        union_of_alias ''Path'' c = [''/v1/user/retrieve'', ''/v1/avatar/send''] \<and>
        quoted ''options /v1/avatar/send'' \<notin> set (interface_keys ''Input'' c) \<and>
        quoted ''options /v1/avatar/send'' \<notin> set (interface_keys ''Response'' c) \<and>
        quoted ''options /v1/avatar/send'' \<notin> set (jsonEndpoints_keys c)
    | Inl err \<Rightarrow> False)"
proof -
  obtain c where c: "Client_constructor example_zodToTs example_cleanId example_routing = Inr c"
    by (simp add: Client_constructor_distinct example_routing_distinct)
  have m: "(sendAvatarEndpoint, ''/v1/avatar/send'', Options) \<in> set example_routing"
    by (simp add: example_routing_def)
  have "TypeAliasDeclaration [] ''options_v1_avatar_send_input''
          (TypeLiteralNode [(''userId'', KeywordTypeNode ''string'')]) \<in> set (agg c) \<and>
        TypeAliasDeclaration [] ''options_v1_avatar_send_response''
          (UnionTypeNode [KeywordTypeNode ''string'', KeywordTypeNode ''string'']) \<in> set (agg c) \<and>
        union_of_alias ''Path'' c = [''/v1/user/retrieve'', ''/v1/avatar/send''] \<and>
        quoted ''options /v1/avatar/send'' \<notin> set (interface_keys ''Input'' c) \<and>
        quoted ''options /v1/avatar/send'' \<notin> set (interface_keys ''Response'' c) \<and>
        quoted ''options /v1/avatar/send'' \<notin> set (jsonEndpoints_keys c)"
    using options_endpoint_excluded [OF c m]
    by (simp add: methodPath_def example_routing_def example_zodToTs_def example_cleanId_def
          sendAvatarEndpoint_def createTypeAlias_def zod_or_def)
  then show ?thesis
    by (simp add: c)
qed

subsection \<open>The store of instances\<close>

lemma push_length [simp]: "length (push this nodes store) = length store"
  by (simp add: push_def)

lemma push_nth:
  "this < length store \<Longrightarrow>
   push this nodes store ! this = (store ! this)\<lparr>agg := agg (store ! this) @ nodes\<rparr>"
  by (simp add: push_def)

lemma push_push:
  "push this ys (push this xs store) = push this (xs @ ys) store"
  by (cases "this < length store") (simp_all add: push_def list_update_beyond)

lemma endpointCb_call_instances:
  assumes z: "\<And>schema identifier opt l. fst (zodToTs schema identifier opt l) = z schema identifier opt"
    and c: "\<And>path method suffix l. fst (cleanId path method suffix l) = cid path method suffix"
    and inside: "this < length (instances w)"
  shows "instances (endpointCb_call zodToTs cleanId this e p m w) =
           (instances w)[this := endpointCb z cid e p m (instances w ! this)]"
  using inside
  by (simp add: endpointCb_call_def endpointCb_def split_beta Let_def z c push_push push_nth)
     (simp add: push_def)

lemma run_call_instances:
  assumes z: "\<And>schema identifier opt l. fst (zodToTs schema identifier opt l) = z schema identifier opt"
    and c: "\<And>path method suffix l. fst (cleanId path method suffix l) = cid path method suffix"
  shows "this < length (instances w) \<Longrightarrow>
         instances (foldl (\<lambda>w' (e, p, m). endpointCb_call zodToTs cleanId this e p m w') w r) =
           (instances w)[this := run_callbacks z cid (instances w ! this) r]"
proof (induction r arbitrary: w)
  case Nil
  then show ?case by simp
next
  case (Cons entry r)
  obtain e p m where entry: "entry = (e, p, m)" by (cases entry)
  let ?w = "endpointCb_call zodToTs cleanId this e p m w"
  have i: "instances ?w = (instances w)[this := endpointCb z cid e p m (instances w ! this)]"
    using z c Cons.prems by (rule endpointCb_call_instances)
  then have "this < length (instances ?w)"
    using Cons.prems by simp
  then have "instances (foldl (\<lambda>w' (e, p, m). endpointCb_call zodToTs cleanId this e p m w') ?w r) =
      (instances ?w)[this := run_callbacks z cid (instances ?w ! this) r]"
    by (rule Cons.IH)
  then show ?case
    using Cons.prems by (simp add: entry i)
qed

lemma new_Client_conflict:
  "find_conflict routing = Some (a, b) \<Longrightarrow>
   fst (new_Client zodToTs cleanId routing w) = Inl (RoutingConflictError a b)"
  by (simp add: new_Client_def Let_def routingCycle_conflict)

lemma new_Client_distinct:
  assumes z: "\<And>schema identifier opt l. fst (zodToTs schema identifier opt l) = z schema identifier opt"
    and c: "\<And>path method suffix l. fst (cleanId path method suffix l) = cid path method suffix"
    and d: "distinct (map route_key routing)"
  shows "fst (new_Client zodToTs cleanId routing w) = Inr (length (instances w)) \<and>
         Inr (instances (snd (new_Client zodToTs cleanId routing w)) ! length (instances w)) =
           Client_constructor z cid routing \<and>
         take (length (instances w)) (instances (snd (new_Client zodToTs cleanId routing w))) = instances w \<and>
         length (instances (snd (new_Client zodToTs cleanId routing w))) = Suc (length (instances w))"
proof -
  let ?ref = "length (instances w)"
  let ?a = "w\<lparr>instances := instances w @ [Client_init]\<rparr>"
  let ?w = "foldl (\<lambda>w' (e, p, m). endpointCb_call zodToTs cleanId ?ref e p m w') ?a routing"
  have "?ref < length (instances ?a)" by simp
  with z c have "instances ?w = (instances ?a)[?ref := run_callbacks z cid (instances ?a ! ?ref) routing]"
    by (rule run_call_instances)
  then have i: "instances ?w = instances w @ [run_callbacks z cid Client_init routing]"
    by simp
  show ?thesis
    using d
    by (simp add: new_Client_def Let_def routingCycle_distinct Client_constructor_distinct i
          push_def aggregates_def)
qed

lemma print_nodes_pure:
  assumes "\<And>nd po l. fst (printNode nd po l) = pn nd po"
  shows "fst (print_nodes printNode nds po l) = map (\<lambda>nd. pn nd po) nds"
  by (induction nds arbitrary: l) (simp_all add: split_beta assms)

lemma print_pure:
  assumes "\<And>nd po l. fst (printNode nd po l) = pn nd po"
  shows "fst (print printNode this po w) =
           join [CHR 0x0A, CHR 0x0A] (map (\<lambda>nd. pn nd po) (agg (instances w ! this)))"
    and "instances (snd (print printNode this po w)) = instances w"
  by (simp_all add: print_def split_beta print_nodes_pure [OF assms])

subsection \<open>Two generations in a row\<close>

text \<open>
  Claim C8. The schemas of the endpoints are finite trees. Let the imported functions
  \<^verbatim>\<open>zodToTs\<close>, \<^verbatim>\<open>cleanId\<close> and \<^verbatim>\<open>printNode\<close> return results that do not depend on the state
  they keep. When a client is constructed over a routing and printed, then constructing a
  client over the same routing again, in the store and the library state the first
  generation left behind, and printing it, succeeds and gives the same string; the second
  instance is another object and the first is left as it was. The string is the one that
  the constructor determines from the routing alone: the printed nodes of the instance
  that the constructor builds, joined by empty lines.
\<close>

theorem generation_twice_same_output:
  assumes "\<forall>schema identifier opt l l'.
             fst (zodToTs schema identifier opt l) = fst (zodToTs schema identifier opt l')"
    and "\<forall>path method suffix l l'.
             fst (cleanId path method suffix l) = fst (cleanId path method suffix l')"
    and "\<forall>nd po l l'. fst (printNode nd po l) = fst (printNode nd po l')"
    and "new_Client zodToTs cleanId routing w = (Inr ref1, w1)"
    and "print printNode ref1 printerOptions w1 = (out1, w2)"
  shows "\<exists>ref2 w3 out2 w4 c.
           new_Client zodToTs cleanId routing w2 = (Inr ref2, w3) \<and>
           print printNode ref2 printerOptions w3 = (out2, w4) \<and>
           out2 = out1 \<and> ref2 \<noteq> ref1 \<and>
           instances w4 ! ref1 = instances w1 ! ref1 \<and>
           Client_constructor
             (\<lambda>schema identifier opt. fst (zodToTs schema identifier opt (libraries w)))
             (\<lambda>path method suffix. fst (cleanId path method suffix (libraries w))) routing = Inr c \<and>
           instances w1 ! ref1 = c \<and>
           out1 = join [CHR 0x0A, CHR 0x0A]
                    (map (\<lambda>nd. fst (printNode nd printerOptions (libraries w))) (agg c))"
proof -
  let ?z = "\<lambda>schema identifier opt. fst (zodToTs schema identifier opt (libraries w))"
  let ?cid = "\<lambda>path method suffix. fst (cleanId path method suffix (libraries w))"
  let ?pn = "\<lambda>nd po. fst (printNode nd po (libraries w))"
  have z: "\<And>schema identifier opt l. fst (zodToTs schema identifier opt l) = ?z schema identifier opt"
    using assms(1) by blast
  have c: "\<And>path method suffix l. fst (cleanId path method suffix l) = ?cid path method suffix"
    using assms(2) by blast
  have p: "\<And>nd po l. fst (printNode nd po l) = ?pn nd po"
    using assms(3) by blast
  have d: "distinct (map route_key routing)"
  proof (rule ccontr)
    assume "\<not> distinct (map route_key routing)"
    then obtain a b where "find_conflict routing = Some (a, b)"
      by (rule find_conflict_distinct)
    then have "fst (new_Client zodToTs cleanId routing w) = Inl (RoutingConflictError a b)"
      by (rule new_Client_conflict)
    with assms(4) show False by simp
  qed
  note n1 = new_Client_distinct [where zodToTs = zodToTs and cleanId = cleanId and z = ?z and cid = ?cid and w = w, OF z c d]
  note n2 = new_Client_distinct [where zodToTs = zodToTs and cleanId = cleanId and z = ?z and cid = ?cid and w = w2, OF z c d]
  obtain ref2 w3 where r2: "new_Client zodToTs cleanId routing w2 = (Inr ref2, w3)"
    using n2 by (cases "new_Client zodToTs cleanId routing w2") auto
  obtain out2 w4 where p2: "print printNode ref2 printerOptions w3 = (out2, w4)"
    by (cases "print printNode ref2 printerOptions w3") auto
  obtain k where k: "Client_constructor ?z ?cid routing = Inr k"
    using d by (simp add: Client_constructor_distinct)
  have ref1: "ref1 = length (instances w)" and c1: "instances w1 ! ref1 = k"
    and len1: "length (instances w1) = Suc (length (instances w))"
    using n1 assms(4) k by auto
  have i2: "instances w2 = instances w1"
    using print_pure(2) [where printNode = printNode and pn = ?pn, OF p, of ref1 printerOptions w1] assms(5) by simp
  have ref2: "ref2 = length (instances w2)" and c2: "instances w3 ! ref2 = k"
    and t3: "take (length (instances w2)) (instances w3) = instances w2"
    using n2 r2 k by auto
  have i4: "instances w4 = instances w3"
    using print_pure(2) [where printNode = printNode and pn = ?pn, OF p, of ref2 printerOptions w3] p2 by simp
  have o1: "out1 = join [CHR 0x0A, CHR 0x0A] (map (\<lambda>nd. ?pn nd printerOptions) (agg k))"
    using print_pure(1) [where printNode = printNode and pn = ?pn, OF p, of ref1 printerOptions w1] assms(5) c1 by simp
  have o2: "out2 = join [CHR 0x0A, CHR 0x0A] (map (\<lambda>nd. ?pn nd printerOptions) (agg k))"
    using print_pure(1) [where printNode = printNode and pn = ?pn, OF p, of ref2 printerOptions w3] p2 c2 by simp
  have ne: "ref2 \<noteq> ref1"
    using ref1 ref2 i2 len1 by simp
  have "ref1 < length (instances w2)"
    using ref1 i2 len1 by simp
  then have "instances w3 ! ref1 = instances w2 ! ref1"
    using t3 by (metis nth_take)
  then have keep: "instances w4 ! ref1 = instances w1 ! ref1"
    by (simp add: i4 i2)
  show ?thesis
    using r2 p2 o1 o2 ne keep k c1 by (intro exI conjI) simp_all
qed

text \<open>
  The libraries of the example keep no state that shows: the two generations over the
  example routing print the same fourteen declarations.
\<close>

theorem generation_twice_same_output_witness:
  "\<exists>w1 out1 w2 ref2 w3 out2 w4.
     new_Client stateless_zodToTs stateless_cleanId example_routing start = (Inr 0, w1) \<and>
     print example_printNode 0 () w1 = (out1, w2) \<and>
     new_Client stateless_zodToTs stateless_cleanId example_routing w2 = (Inr ref2, w3) \<and>
     print example_printNode ref2 () w3 = (out2, w4) \<and>
     ref2 \<noteq> 0 \<and> out2 = out1 \<and>
     out1 = join [CHR 0x0A, CHR 0x0A]
       [''type get_v1_user_retrieve_input'', ''type get_v1_user_retrieve_response'',
        ''type get_v1_avatar_send_input'', ''type get_v1_avatar_send_response'',
        ''type options_v1_avatar_send_input'', ''type options_v1_avatar_send_response'',
        ''type Path'', ''type Method'', ''type MethodPath'', ''interface Input'',
        ''interface Response'', ''const jsonEndpoints'', ''type Provider'',
        ''class ExpressZodAPIClient'']"
proof -
  let ?r1 = "new_Client stateless_zodToTs stateless_cleanId example_routing start"
  let ?p1 = "print example_printNode 0 () (snd ?r1)"
  have h1: "\<forall>schema identifier opt l l'.
      fst (stateless_zodToTs schema identifier opt l) = fst (stateless_zodToTs schema identifier opt l')"
    by (simp add: stateless_zodToTs_def)
  have h2: "\<forall>path method suffix l l'.
      fst (stateless_cleanId path method suffix l) = fst (stateless_cleanId path method suffix l')"
    by (simp add: stateless_cleanId_def)
  have h3: "\<forall>nd po l l'. fst (example_printNode nd po l) = fst (example_printNode nd po l')"
    by (simp add: example_printNode_def)
  have "fst ?r1 = Inr 0"
    by code_simp
  then have h4: "?r1 = (Inr 0, snd ?r1)"
    by (metis prod.collapse)
  have h5: "?p1 = (fst ?p1, snd ?p1)"
    by simp
  have e: "fst ?p1 = join [CHR 0x0A, CHR 0x0A]
       [''type get_v1_user_retrieve_input'', ''type get_v1_user_retrieve_response'',
        ''type get_v1_avatar_send_input'', ''type get_v1_avatar_send_response'',
        ''type options_v1_avatar_send_input'', ''type options_v1_avatar_send_response'',
        ''type Path'', ''type Method'', ''type MethodPath'', ''interface Input'',
        ''interface Response'', ''const jsonEndpoints'', ''type Provider'',
        ''class ExpressZodAPIClient'']"
    by code_simp
  from generation_twice_same_output [OF h1 h2 h3 h4 h5]
  obtain ref2 w3 out2 w4 where
    "new_Client stateless_zodToTs stateless_cleanId example_routing (snd ?p1) = (Inr ref2, w3)"
    "print example_printNode ref2 () w3 = (out2, w4)" "out2 = fst ?p1" "ref2 \<noteq> 0"
    by blast
  with h4 h5 e show ?thesis
    by (intro exI conjI) simp_all
qed

text \<open>
  The hypothesis on the libraries is needed, and the store can tell: with an identifier
  maker that numbers its results, the second generation prints other identifiers.
\<close>

lemma numbering_library_shows:
  "fst (new_Client stateless_zodToTs numbering_cleanId example_routing start) = Inr 0 \<and>
   fst (new_Client stateless_zodToTs numbering_cleanId example_routing
          (snd (print example_printNode 0 ()
             (snd (new_Client stateless_zodToTs numbering_cleanId example_routing start))))) = Inr 1 \<and>
   fst (print example_printNode 1 ()
          (snd (new_Client stateless_zodToTs numbering_cleanId example_routing
             (snd (print example_printNode 0 ()
                (snd (new_Client stateless_zodToTs numbering_cleanId example_routing start))))))) \<noteq>
   fst (print example_printNode 0 ()
          (snd (new_Client stateless_zodToTs numbering_cleanId example_routing start)))"
  by code_simp

subsection \<open>Two routes of the same method and path\<close>

lemma assemble_conflict:
  "find_conflict routing = Some (a, b) \<Longrightarrow>
   assemble generator g view routing = Inl (Conflict (RoutingConflictError a b))"
  by (simp add: assemble_def routingCycle_conflict)

lemma Client_constructor_conflict:
  "find_conflict routing = Some (a, b) \<Longrightarrow>
   Client_constructor zodToTs cleanId routing = Inl (RoutingConflictError a b)"
  by (simp add: Client_constructor_def routingCycle_conflict)

lemma new_Client_conflict_world:
  "find_conflict routing = Some (a, b) \<Longrightarrow>
   new_Client zodToTs cleanId routing w =
     (Inl (RoutingConflictError a b), w\<lparr>instances := instances w @ [Client_init]\<rparr>)"
  by (simp add: new_Client_def Let_def routingCycle_conflict)

lemma conflicting_routing_conflict:
  "find_conflict conflicting_routing =
     Some ((retrieveUserEndpoint, ''/v1/user/retrieve'', Get),
           (sendAvatarEndpoint, ''/v1/user/retrieve'', Get))"
  by (simp add: conflicting_routing_def route_key_def)

text \<open>
  A traversal of a routing without a conflict does call the visitor, once for each entry:
  a visitor that counts its calls ends with the number of entries.
\<close>

lemma visitor_called_once_per_entry:
  assumes "distinct (map route_key routing)"
  shows "routingCycle routing (\<lambda>endpoint path method n. Suc n) 0 = (Inr (), length routing)"
proof -
  have "foldl (\<lambda>s' (endpoint, path, method). Suc s') k routing = k + length routing" for k
    by (induction routing arbitrary: k) (auto split: prod.splits)
  then show ?thesis
    unfolding routingCycle_distinct [OF assms] by simp
qed

text \<open>
  Claim C3. For every routing in which two entries resolve to the same method and path,
  the traversal raises the error named \<^verbatim>\<open>RoutingConflictError\<close>, which reports both
  conflicting declarations: two entries of the routing, the one declared before the other,
  of the same method and path. It raises it for every visitor and leaves the state of the
  visitor as it was, whatever the visitor does when it is called: no visitor is called.
  So the document assembler returns this error and no document, for every schema graph,
  generator of names and reading of the endpoints; the constructor of the client returns
  this error and no instance, for every renderer and identifier maker; and
  \<^verbatim>\<open>new Client(routing)\<close> returns this error and no reference, the libraries are in the
  state they were in, and the instance allocated has no declaration pushed.
\<close>

theorem duplicate_route_raises_RoutingConflictError:
  fixes routing :: Routing
  assumes "\<not> distinct (map route_key routing)"
  shows "\<exists>earlier later i j.
           i < j \<and> j < length routing \<and> routing ! i = earlier \<and> routing ! j = later \<and>
           route_key earlier = route_key later \<and>
           name (RoutingConflictError earlier later) = ''RoutingConflictError'' \<and>
           declarations (RoutingConflictError earlier later) = (earlier, later) \<and>
           (\<forall>visitor s. routingCycle routing visitor s =
                          (Inl (RoutingConflictError earlier later), s)) \<and>
           (\<forall>generator g view.
              assemble generator g view routing =
                Inl (Conflict (RoutingConflictError earlier later))) \<and>
           (\<forall>zodToTs cleanId.
              Client_constructor zodToTs cleanId routing =
                Inl (RoutingConflictError earlier later)) \<and>
           (\<forall>zodToTs cleanId w.
              new_Client zodToTs cleanId routing w =
                (Inl (RoutingConflictError earlier later),
                 w\<lparr>instances := instances w @ [Client_init]\<rparr>))"
proof -
  have "find_conflict routing \<noteq> None"
    using assms by (simp add: find_conflict_None)
  then obtain earlier later where f: "find_conflict routing = Some (earlier, later)"
    by (cases "find_conflict routing") auto
  from find_conflict_Some [OF f] obtain i j where
        p1: "i < j" and p2: "j < length routing"
    and p3: "routing ! i = earlier" and p4: "routing ! j = later"
    and p5: "route_key earlier = route_key later"
    by (elim exE conjE)
  have p6: "name (RoutingConflictError earlier later) = ''RoutingConflictError''"
    by (simp add: RoutingConflictError_def)
  have p7: "declarations (RoutingConflictError earlier later) = (earlier, later)"
    by (simp add: RoutingConflictError_def)
  have p8: "\<forall>visitor s. routingCycle routing visitor s =
      (Inl (RoutingConflictError earlier later), s)"
    by (intro allI) (rule routingCycle_conflict [OF f])
  have p9: "\<forall>generator g view. assemble generator g view routing =
      Inl (Conflict (RoutingConflictError earlier later))"
    by (intro allI) (rule assemble_conflict [OF f])
  have p10: "\<forall>zodToTs cleanId. Client_constructor zodToTs cleanId routing =
      Inl (RoutingConflictError earlier later)"
    by (intro allI) (rule Client_constructor_conflict [OF f])
  have p11: "\<forall>zodToTs cleanId w. new_Client zodToTs cleanId routing w =
      (Inl (RoutingConflictError earlier later), w\<lparr>instances := instances w @ [Client_init]\<rparr>)"
    by (intro allI) (rule new_Client_conflict_world [OF f])
  show ?thesis
    using p1 p2 p3 p4 p5 p6 p7 p8 p9 p10 p11 by (intro exI conjI)
qed

theorem duplicate_route_raises_RoutingConflictError_witness:
  "\<not> distinct (map route_key conflicting_routing) \<and>
   routingCycle conflicting_routing (\<lambda>endpoint path method n. Suc n) (0 :: nat) =
     (Inl (RoutingConflictError (retrieveUserEndpoint, ''/v1/user/retrieve'', Get)
             (sendAvatarEndpoint, ''/v1/user/retrieve'', Get)), 0) \<and>
   assemble hint_name scenario_graph (\<lambda>endpoint. json_endpoint) conflicting_routing =
     Inl (Conflict (RoutingConflictError (retrieveUserEndpoint, ''/v1/user/retrieve'', Get)
                      (sendAvatarEndpoint, ''/v1/user/retrieve'', Get))) \<and>
   Client_constructor example_zodToTs example_cleanId conflicting_routing =
     Inl (RoutingConflictError (retrieveUserEndpoint, ''/v1/user/retrieve'', Get)
            (sendAvatarEndpoint, ''/v1/user/retrieve'', Get)) \<and>
   new_Client stateless_zodToTs stateless_cleanId conflicting_routing start =
     (Inl (RoutingConflictError (retrieveUserEndpoint, ''/v1/user/retrieve'', Get)
             (sendAvatarEndpoint, ''/v1/user/retrieve'', Get)),
      \<lparr>instances = [Client_init], libraries = 0\<rparr>)"
proof -
  have h: "\<not> distinct (map route_key conflicting_routing)"
    by (simp add: conflicting_routing_def route_key_def)
  from duplicate_route_raises_RoutingConflictError [OF h]
  obtain earlier later where
        v: "\<forall>visitor (s :: nat). routingCycle conflicting_routing visitor s =
              (Inl (RoutingConflictError earlier later), s)"
    and a: "\<forall>generator g view. assemble generator g view conflicting_routing =
              Inl (Conflict (RoutingConflictError earlier later))"
    and c: "\<forall>zodToTs cleanId. Client_constructor zodToTs cleanId conflicting_routing =
              Inl (RoutingConflictError earlier later)"
    and n: "\<forall>zodToTs cleanId (w :: nat World). new_Client zodToTs cleanId conflicting_routing w =
              (Inl (RoutingConflictError earlier later),
               w\<lparr>instances := instances w @ [Client_init]\<rparr>)"
    by (elim exE conjE)
  have e: "RoutingConflictError earlier later =
      RoutingConflictError (retrieveUserEndpoint, ''/v1/user/retrieve'', Get)
        (sendAvatarEndpoint, ''/v1/user/retrieve'', Get)"
    using c Client_constructor_conflict [OF conflicting_routing_conflict] by (metis Inl_inject)
  show ?thesis
    using h v a c n unfolding e by (simp add: start_def)
qed

section \<open>Properties of the schema walker\<close>

subsection \<open>The cases of render\<close>

lemma render_missing:
  "map_of g i = None \<Longrightarrow> render W g stack i st = (Inl (UnsupportedSchemaError (rev (i # stack))), st)"
  by simp



lemma render_unsupported:
  "map_of g i = Some (v, m) \<Longrightarrow> i \<notin> set stack \<Longrightarrow> map_of (visited st) i = None \<Longrightarrow>
   unsupported v \<Longrightarrow>
   render W g stack i st = (Inl (UnsupportedSchemaError (rev (i # stack))), st)"
  by (simp add: isInFlight_def)


declare render.simps [simp del]

subsection \<open>Names\<close>

lemma suffixed_inject: "suffixed base j = suffixed base k \<longleftrightarrow> j = k"
proof
  assume "suffixed base j = suffixed base k"
  then have "length (suffixed base j) = length (suffixed base k)" by simp
  then show "j = k" by (simp add: suffixed_def)
qed simp

lemma candidates_distinct: "distinct (map (suffixed base) [0..<n])"
  by (simp add: distinct_map inj_on_def suffixed_inject)

lemma one_candidate_free:
  "\<exists>n \<in> set (map (suffixed base) [0..<Suc (length taken)]). n \<notin> set taken"
proof (rule ccontr)
  let ?cs = "map (suffixed base) [0..<Suc (length taken)]"
  assume "\<not> ?thesis"
  then have "set ?cs \<subseteq> set taken" by blast
  then have "card (set ?cs) \<le> card (set taken)"
    by (intro card_mono) simp_all
  moreover have "card (set ?cs) = Suc (length taken)"
    using candidates_distinct [of base "Suc (length taken)"] distinct_card [of ?cs] by simp
  moreover have "card (set taken) \<le> length taken"
    by (rule card_length)
  ultimately show False by simp
qed

lemma disambiguate_free: "disambiguate taken base \<notin> set taken"
proof -
  let ?cs = "map (suffixed base) [0..<Suc (length taken)]"
  obtain n where "List.find (\<lambda>n. n \<notin> set taken) ?cs = Some n"
    using one_candidate_free [of base taken]
    by (cases "List.find (\<lambda>n. n \<notin> set taken) ?cs") (auto simp: find_None_iff)
  moreover from this have "n \<notin> set taken"
    by (auto simp: find_Some_iff)
  ultimately show ?thesis
    by (simp add: disambiguate_def)
qed

lemma disambiguate_is_suffixed: "\<exists>k. disambiguate taken base = suffixed base k"
proof (cases "List.find (\<lambda>n. n \<notin> set taken) (map (suffixed base) [0..<Suc (length taken)])")
  case None
  then show ?thesis by (auto simp: disambiguate_def)
next
  case (Some n)
  then have "n \<in> set (map (suffixed base) [0..<Suc (length taken)])"
    by (metis find_Some_iff nth_mem)
  then obtain k where "n = suffixed base k"
    by (auto simp del: upt_Suc)
  with Some show ?thesis by (auto simp: disambiguate_def simp del: upt_Suc)
qed

subsection \<open>The resolver operations\<close>

lemma ext_refl [simp]: "ext st st"
  by (simp add: ext_def)





lemma reserved_iff: "i \<in> reserved st \<longleftrightarrow> map_of (names st) i \<noteq> None"
  by (simp add: reserved_def map_of_eq_None_iff)

lemma reserve_old:
  "map_of (names st) i = Some n \<Longrightarrow> reserve W g up i st = (n, st)"
  by (simp add: reserve_def)

lemma reserve_new:
  assumes "i \<notin> reserved st"
  shows "snd (reserve W g up i st) = st\<lparr>names := names st @ [(i, fst (reserve W g up i st))]\<rparr>"
    and "fst (reserve W g up i st) \<notin> snd ` set (names st)"
    and "fst (reserve W g up i st) \<notin> fst ` set (components st)"
    and "\<exists>k. fst (reserve W g up i st) =
           suffixed (naming W (hint W g up) (length (names st)) i) k"
proof -
  let ?taken = "map snd (names st) @ map fst (components st)"
  let ?n = "disambiguate ?taken (naming W (hint W g up) (length (names st)) i)"
  have none: "map_of (names st) i = None"
    using assms by (simp add: reserved_iff)
  then have r: "reserve W g up i st = (?n, st\<lparr>names := names st @ [(i, ?n)]\<rparr>)"
    by (simp add: reserve_def Let_def)
  have free: "?n \<notin> set ?taken"
    by (rule disambiguate_free)
  show "snd (reserve W g up i st) = st\<lparr>names := names st @ [(i, fst (reserve W g up i st))]\<rparr>"
    by (simp add: r)
  show "fst (reserve W g up i st) \<notin> snd ` set (names st)"
    using free by (simp add: r)
  show "fst (reserve W g up i st) \<notin> fst ` set (components st)"
    using free by (simp add: r)
  show "\<exists>k. fst (reserve W g up i st) =
           suffixed (naming W (hint W g up) (length (names st)) i) k"
    using disambiguate_is_suffixed [of ?taken] by (simp add: r)
qed

lemma reserve_visited [simp]: "visited (snd (reserve W g up i st)) = visited st"
  by (simp add: reserve_def Let_def split: option.splits)

lemma reserve_components [simp]: "components (snd (reserve W g up i st)) = components st"
  by (simp add: reserve_def Let_def split: option.splits)

lemma reserve_reserved [simp]: "reserved (snd (reserve W g up i st)) = insert i (reserved st)"
proof (cases "i \<in> reserved st")
  case True
  then obtain n where "map_of (names st) i = Some n"
    by (auto simp: reserved_iff)
  with True show ?thesis
    by (auto simp: reserve_old)
next
  case False
  then show ?thesis
    by (simp add: reserve_new(1) reserved_def)
qed

lemma reserve_seen [simp]: "seen (snd (reserve W g up i st)) = seen st"
  by (simp add: seen_def)

lemma reserve_pos [simp]: "pos (snd (reserve W g up i st)) = pos st"
  by (simp add: pos_def fun_eq_iff)




lemma register_taken:
  "map_of (components st) n = Some other \<Longrightarrow>
   register n body st = Inl (ComponentNameCollisionError n other body)"
  by (simp add: register_def)

subsection \<open>The invariant of the walk\<close>



















subsection \<open>Cycles and boundaries\<close>






subsection \<open>A walk succeeds, keeps the invariant and leaves what the relation says\<close>




subsection \<open>After a walk from the root\<close>










subsection \<open>Which identities are referred to\<close>

lemma count_met_append:
  "count_list (met g cs (xs @ ys)) j =
     count_list (met g cs xs) j + count_list (concat (map (children_of g) (map fst ys))) j"
  by (simp add: met_def)






subsection \<open>Cyclic schemas\<close>










text \<open>
  What the walk refuses: a cycle that passes through no object and no array, a node of a
  kind no renderer is written for, and an intersection whose members declare the same
  field with different kinds. What the resolver refuses: a second component under a name
  that is registered. And a node that is no part of a cycle, used twice: it is registered
  as a component at its second occurrence, and both the second occurrence and the
  component are its fragment, the first occurrence stays expanded.
\<close>

lemma bare_cycle_fails:
  "fst (render (document_walker hint_name ''Root'') [(0, Optional 1, no_meta), (1, Nullable 0, no_meta)]
          [] 0 empty_resolver) = Inl (UnrenderableCycleError [0, 1, 0])"
  by code_simp

lemma conflicting_intersection_fails:
  "fst (render (document_walker hint_name ''Root'')
          [(0, Intersection [1, 2], no_meta),
           (1, Object [(''a'', 3)] [''a''], no_meta),
           (2, Object [(''a'', 4)] [''a''], no_meta),
           (3, Primitive ''string'' [], no_meta),
           (4, Primitive ''number'' [], no_meta)]
          [] 0 empty_resolver) = Inl (IntersectionConflictError ''a'' ''string'' ''number'')"
  by code_simp

lemma taken_name_collides:
  "register ''Name'' (Str ''second'')
     \<lparr>names = [], components = [(''Name'', Str ''first'')], visited = []\<rparr> =
   Inl (ComponentNameCollisionError ''Name'' (Str ''first'') (Str ''second''))"
  by (simp add: register_def)

lemma shared_node_is_referenced:
  "render (document_walker hint_name ''Root'') shared_graph [] 0 empty_resolver =
     (Inr (Map [(''type'', Str ''object''),
                (''properties'',
                 Map [(''a'', Map [(''type'', Str ''string'')]),
                      (''b'', Map [(''$ref'', Str ''#/components/schemas/a'')])]),
                (''required'', Seq [Str ''a'', Str ''b''])]),
      \<lparr>names = [(1, ''a'')],
       components = [(''a'', Map [(''type'', Str ''string'')])],
       visited = [(1, Map [(''type'', Str ''string'')]),
                  (0, Map [(''type'', Str ''object''),
                           (''properties'',
                            Map [(''a'', Map [(''type'', Str ''string'')]),
                                 (''b'', Map [(''$ref'', Str ''#/components/schemas/a'')])]),
                           (''required'', Seq [Str ''a'', Str ''b''])])]\<rparr>)"
  by code_simp



section \<open>Properties of the assembled document\<close>

text \<open>
  The model of the assembler against the example documentation: the endpoint of the example
  API on \<^verbatim>\<open>GET /v1/user/retrieve\<close>, assembled with the generator of the documented name,
  gives the operation id, the name, source, requirement and schema of the parameters, the
  schemas of both responses and the components of the example documentation. (The
  descriptions and the examples of the responses and the description of the parameter
  are metadata of the endpoint, not modelled.) The document writes the pattern of the
  \<^verbatim>\<open>id\<close> in the notation of a regular expression literal, \<^verbatim>\<open>/\d+/\<close>.
\<close>

lemma retrieve_assembled:
  "(case assemble documented_name retrieve_graph (\<lambda>e. e) [(json_endpoint, ''/v1/user/retrieve'', Get)] of
      Inr doc \<Rightarrow>
        keys doc = [''paths'', ''components''] \<and>
        yaml_at doc (retrieve_get @ [''operationId'']) = Some (at (retrieve_get @ [''operationId''])) \<and>
        map (\<lambda>p. (yaml_get p ''name'', yaml_get p ''in'', yaml_get p ''required'', yaml_get p ''schema''))
            (items (the (yaml_at doc (retrieve_get @ [''parameters'']))))
          = map (\<lambda>p. (yaml_get p ''name'', yaml_get p ''in'', yaml_get p ''required'', yaml_get p ''schema''))
              (items (at (retrieve_get @ [''parameters'']))) \<and>
        keys (the (yaml_at doc (retrieve_get @ [''responses'']))) = [''200'', ''400''] \<and>
        yaml_at doc (response_schema ''200'') = Some (at (response_schema ''200'')) \<and>
        yaml_at doc (response_schema ''400'') = Some (at (response_schema ''400'')) \<and>
        yaml_at doc [''components'', ''schemas''] = Some (at [''components'', ''schemas''])
    | Inl e \<Rightarrow> False)"
  by code_simp

subsection \<open>The operation GET /v1/user/retrieve\<close>

text \<open>
  Claim C7. For the endpoint with the input \<^verbatim>\<open>{id: string matching \d+}\<close>, the success
  output \<^verbatim>\<open>{status: "success", data: {name: string}}\<close> and the failure output
  \<^verbatim>\<open>{status: "error", error: {message: string}}\<close> on \<^verbatim>\<open>GET /v1/user/retrieve\<close>, whatever
  the generator of names: the assembler returns a document; its
  \<^verbatim>\<open>paths./v1/user/retrieve.get.parameters\<close> is a list of exactly one parameter, the required
  query parameter \<^verbatim>\<open>id\<close>, whose schema is the string with the pattern as it was given; its
  responses are those of the codes 200 and 400, and their schemas for
  \<^verbatim>\<open>application/json\<close> are exactly the objects of the two outcome shapes: the status with
  its one enum value, the data with the string \<^verbatim>\<open>name\<close> or the error with the string
  \<^verbatim>\<open>message\<close>, and every member required; no component is registered.
\<close>

theorem retrieve_scenario_document:
  "(case assemble generator scenario_graph (\<lambda>e. e) [(json_endpoint, ''/v1/user/retrieve'', Get)] of
      Inr doc \<Rightarrow>
     yaml_at doc [''paths'', ''/v1/user/retrieve'', ''get'', ''parameters''] =
       Some (Seq [Map [(''name'', Str ''id''), (''in'', Str ''query''), (''required'', Bool True),
                       (''schema'', Map [(''type'', Str ''string''),
                                         (''pattern'', Str ([CHR 0x5C] @ ''d+''))])]]) \<and>
     map_option keys (yaml_at doc [''paths'', ''/v1/user/retrieve'', ''get'', ''responses'']) =
       Some [''200'', ''400''] \<and>
     yaml_at doc [''paths'', ''/v1/user/retrieve'', ''get'', ''responses'', ''200''] =
       Some (Map [(''content'', Map [(''application/json'', Map [(''schema'',
         Map [(''type'', Str ''object''),
              (''properties'',
               Map [(''status'', Map [(''type'', Str ''string''), (''enum'', Seq [Str ''success''])]),
                    (''data'',
                     Map [(''type'', Str ''object''),
                          (''properties'', Map [(''name'', Map [(''type'', Str ''string'')])]),
                          (''required'', Seq [Str ''name''])])]),
              (''required'', Seq [Str ''status'', Str ''data''])])])])]) \<and>
     yaml_at doc [''paths'', ''/v1/user/retrieve'', ''get'', ''responses'', ''400''] =
       Some (Map [(''content'', Map [(''application/json'', Map [(''schema'',
         Map [(''type'', Str ''object''),
              (''properties'',
               Map [(''status'', Map [(''type'', Str ''string''), (''enum'', Seq [Str ''error''])]),
                    (''error'',
                     Map [(''type'', Str ''object''),
                          (''properties'', Map [(''message'', Map [(''type'', Str ''string'')])]),
                          (''required'', Seq [Str ''message''])])]),
              (''required'', Seq [Str ''status'', Str ''error''])])])])]) \<and>
     yaml_at doc [''components'', ''schemas''] = Some (Map [])
    | Inl e \<Rightarrow> False)"
  by code_simp


end
